theory Spec2Isabelle
  imports Complex_Main "HOL-Library.Log_Nat"
begin

section \<open>Reel strip registry (reelStrips.js)\<close>

text \<open>
  A symbol is a JavaScript string; a reel strip is an array of symbols. The twelve
  strips below are the literal tables \<open>BASE_GAME_STRIPS\<close> and \<open>FREE_SPINS_STRIPS\<close>
  of the source, element for element.
\<close>

type_synonym symbol = string
type_synonym strip = "symbol list"

definition STRIP_VERSION :: string where
  "STRIP_VERSION = ''2.0.0''"

definition STRIP_LENGTH :: nat where
  "STRIP_LENGTH = 120"

definition base_strip_0 :: strip where
  "base_strip_0 =
    [''time_gem'', ''time_gem'', ''space_gem'', ''space_gem'', ''mind_gem'',
     ''mind_gem'', ''power_gem'', ''power_gem'', ''reality_gem'', ''reality_gem'',
     ''soul_gem'', ''soul_gem'', ''thanos_weapon'', ''thanos_weapon'', ''scarlet_witch'',
     ''thanos'', ''time_gem'', ''time_gem'', ''space_gem'', ''space_gem'',
     ''mind_gem'', ''power_gem'', ''reality_gem'', ''soul_gem'', ''infinity_glove'',
     ''time_gem'', ''time_gem'', ''space_gem'', ''mind_gem'', ''mind_gem'',
     ''power_gem'', ''power_gem'', ''reality_gem'', ''soul_gem'', ''thanos_weapon'',
     ''thanos_weapon'', ''scarlet_witch'', ''thanos'', ''infinity_glove'', ''space_gem'',
     ''space_gem'', ''space_gem'', ''mind_gem'', ''power_gem'', ''reality_gem'',
     ''reality_gem'', ''soul_gem'', ''soul_gem'', ''thanos_weapon'', ''infinity_glove'',
     ''time_gem'', ''time_gem'', ''space_gem'', ''space_gem'', ''mind_gem'',
     ''mind_gem'', ''power_gem'', ''reality_gem'', ''soul_gem'', ''thanos_weapon'',
     ''scarlet_witch'', ''scarlet_witch'', ''thanos'', ''time_gem'', ''time_gem'',
     ''space_gem'', ''space_gem'', ''mind_gem'', ''power_gem'', ''power_gem'',
     ''reality_gem'', ''reality_gem'', ''soul_gem'', ''thanos_weapon'', ''infinity_glove'',
     ''time_gem'', ''space_gem'', ''space_gem'', ''mind_gem'', ''mind_gem'',
     ''power_gem'', ''power_gem'', ''reality_gem'', ''soul_gem'', ''soul_gem'',
     ''thanos_weapon'', ''thanos_weapon'', ''scarlet_witch'', ''thanos'', ''thanos'',
     ''time_gem'', ''time_gem'', ''space_gem'', ''mind_gem'', ''power_gem'',
     ''reality_gem'', ''soul_gem'', ''thanos_weapon'', ''scarlet_witch'', ''infinity_glove'',
     ''time_gem'', ''time_gem'', ''space_gem'', ''space_gem'', ''mind_gem'',
     ''power_gem'', ''reality_gem'', ''reality_gem'', ''soul_gem'', ''thanos_weapon'',
     ''scarlet_witch'', ''scarlet_witch'', ''thanos'', ''thanos'', ''time_gem'',
     ''space_gem'', ''mind_gem'', ''power_gem'', ''reality_gem'', ''infinity_glove'']"

definition base_strip_1 :: strip where
  "base_strip_1 =
    [''space_gem'', ''space_gem'', ''time_gem'', ''time_gem'', ''mind_gem'',
     ''mind_gem'', ''power_gem'', ''reality_gem'', ''reality_gem'', ''soul_gem'',
     ''soul_gem'', ''thanos_weapon'', ''thanos_weapon'', ''scarlet_witch'', ''infinity_glove'',
     ''time_gem'', ''time_gem'', ''space_gem'', ''space_gem'', ''mind_gem'',
     ''power_gem'', ''power_gem'', ''reality_gem'', ''soul_gem'', ''infinity_glove'',
     ''time_gem'', ''space_gem'', ''space_gem'', ''mind_gem'', ''mind_gem'',
     ''power_gem'', ''reality_gem'', ''reality_gem'', ''soul_gem'', ''soul_gem'',
     ''thanos_weapon'', ''scarlet_witch'', ''scarlet_witch'', ''thanos'', ''infinity_glove'',
     ''time_gem'', ''space_gem'', ''space_gem'', ''mind_gem'', ''power_gem'',
     ''power_gem'', ''reality_gem'', ''soul_gem'', ''thanos_weapon'', ''infinity_glove'',
     ''time_gem'', ''time_gem'', ''space_gem'', ''mind_gem'', ''mind_gem'',
     ''power_gem'', ''power_gem'', ''reality_gem'', ''reality_gem'', ''soul_gem'',
     ''thanos_weapon'', ''thanos_weapon'', ''scarlet_witch'', ''thanos'', ''thanos'',
     ''time_gem'', ''space_gem'', ''space_gem'', ''space_gem'', ''mind_gem'',
     ''power_gem'', ''reality_gem'', ''reality_gem'', ''soul_gem'', ''infinity_glove'',
     ''time_gem'', ''time_gem'', ''space_gem'', ''space_gem'', ''mind_gem'',
     ''mind_gem'', ''power_gem'', ''reality_gem'', ''soul_gem'', ''soul_gem'',
     ''thanos_weapon'', ''thanos_weapon'', ''scarlet_witch'', ''scarlet_witch'', ''thanos'',
     ''time_gem'', ''time_gem'', ''space_gem'', ''mind_gem'', ''power_gem'',
     ''power_gem'', ''reality_gem'', ''soul_gem'', ''thanos_weapon'', ''infinity_glove'',
     ''time_gem'', ''space_gem'', ''space_gem'', ''mind_gem'', ''mind_gem'',
     ''power_gem'', ''power_gem'', ''reality_gem'', ''reality_gem'', ''soul_gem'',
     ''thanos_weapon'', ''scarlet_witch'', ''thanos'', ''thanos'', ''time_gem'',
     ''space_gem'', ''mind_gem'', ''power_gem'', ''soul_gem'', ''thanos_weapon'']"

definition base_strip_2 :: strip where
  "base_strip_2 =
    [''mind_gem'', ''mind_gem'', ''time_gem'', ''time_gem'', ''space_gem'',
     ''space_gem'', ''power_gem'', ''power_gem'', ''reality_gem'', ''soul_gem'',
     ''soul_gem'', ''thanos_weapon'', ''scarlet_witch'', ''scarlet_witch'', ''thanos'',
     ''time_gem'', ''time_gem'', ''space_gem'', ''mind_gem'', ''mind_gem'',
     ''power_gem'', ''reality_gem'', ''reality_gem'', ''soul_gem'', ''infinity_glove'',
     ''time_gem'', ''time_gem'', ''space_gem'', ''space_gem'', ''mind_gem'',
     ''power_gem'', ''power_gem'', ''reality_gem'', ''reality_gem'', ''soul_gem'',
     ''thanos_weapon'', ''thanos_weapon'', ''scarlet_witch'', ''thanos'', ''infinity_glove'',
     ''space_gem'', ''space_gem'', ''space_gem'', ''mind_gem'', ''mind_gem'',
     ''power_gem'', ''reality_gem'', ''soul_gem'', ''soul_gem'', ''infinity_glove'',
     ''time_gem'', ''time_gem'', ''space_gem'', ''space_gem'', ''mind_gem'',
     ''mind_gem'', ''power_gem'', ''power_gem'', ''reality_gem'', ''soul_gem'',
     ''thanos_weapon'', ''thanos_weapon'', ''scarlet_witch'', ''thanos'', ''infinity_glove'',
     ''time_gem'', ''time_gem'', ''space_gem'', ''mind_gem'', ''power_gem'',
     ''power_gem'', ''reality_gem'', ''reality_gem'', ''soul_gem'', ''infinity_glove'',
     ''time_gem'', ''space_gem'', ''space_gem'', ''mind_gem'', ''mind_gem'',
     ''power_gem'', ''reality_gem'', ''reality_gem'', ''soul_gem'', ''soul_gem'',
     ''thanos_weapon'', ''thanos_weapon'', ''scarlet_witch'', ''scarlet_witch'', ''thanos'',
     ''time_gem'', ''time_gem'', ''space_gem'', ''space_gem'', ''mind_gem'',
     ''power_gem'', ''power_gem'', ''reality_gem'', ''soul_gem'', ''infinity_glove'',
     ''time_gem'', ''time_gem'', ''space_gem'', ''mind_gem'', ''mind_gem'',
     ''power_gem'', ''reality_gem'', ''soul_gem'', ''thanos_weapon'', ''thanos_weapon'',
     ''scarlet_witch'', ''thanos'', ''thanos'', ''time_gem'', ''space_gem'',
     ''space_gem'', ''mind_gem'', ''power_gem'', ''reality_gem'', ''soul_gem'']"

definition base_strip_3 :: strip where
  "base_strip_3 =
    [''power_gem'', ''power_gem'', ''time_gem'', ''time_gem'', ''space_gem'',
     ''space_gem'', ''mind_gem'', ''mind_gem'', ''reality_gem'', ''reality_gem'',
     ''soul_gem'', ''thanos_weapon'', ''thanos_weapon'', ''scarlet_witch'', ''thanos'',
     ''time_gem'', ''space_gem'', ''space_gem'', ''mind_gem'', ''mind_gem'',
     ''power_gem'', ''power_gem'', ''reality_gem'', ''soul_gem'', ''infinity_glove'',
     ''time_gem'', ''time_gem'', ''space_gem'', ''space_gem'', ''mind_gem'',
     ''power_gem'', ''reality_gem'', ''reality_gem'', ''soul_gem'', ''soul_gem'',
     ''thanos_weapon'', ''scarlet_witch'', ''scarlet_witch'', ''thanos'', ''thanos'',
     ''time_gem'', ''time_gem'', ''space_gem'', ''mind_gem'', ''mind_gem'',
     ''power_gem'', ''power_gem'', ''reality_gem'', ''soul_gem'', ''infinity_glove'',
     ''time_gem'', ''time_gem'', ''space_gem'', ''space_gem'', ''mind_gem'',
     ''mind_gem'', ''power_gem'', ''reality_gem'', ''reality_gem'', ''soul_gem'',
     ''soul_gem'', ''thanos_weapon'', ''thanos_weapon'', ''scarlet_witch'', ''thanos'',
     ''time_gem'', ''space_gem'', ''space_gem'', ''space_gem'', ''mind_gem'',
     ''power_gem'', ''power_gem'', ''reality_gem'', ''soul_gem'', ''infinity_glove'',
     ''time_gem'', ''time_gem'', ''space_gem'', ''mind_gem'', ''mind_gem'',
     ''power_gem'', ''power_gem'', ''reality_gem'', ''reality_gem'', ''soul_gem'',
     ''thanos_weapon'', ''thanos_weapon'', ''scarlet_witch'', ''scarlet_witch'', ''thanos'',
     ''time_gem'', ''time_gem'', ''space_gem'', ''space_gem'', ''mind_gem'',
     ''power_gem'', ''reality_gem'', ''reality_gem'', ''soul_gem'', ''infinity_glove'',
     ''time_gem'', ''space_gem'', ''space_gem'', ''mind_gem'', ''mind_gem'',
     ''power_gem'', ''power_gem'', ''reality_gem'', ''soul_gem'', ''soul_gem'',
     ''thanos_weapon'', ''scarlet_witch'', ''thanos'', ''thanos'', ''time_gem'',
     ''space_gem'', ''mind_gem'', ''power_gem'', ''reality_gem'', ''thanos_weapon'']"

definition base_strip_4 :: strip where
  "base_strip_4 =
    [''reality_gem'', ''reality_gem'', ''time_gem'', ''time_gem'', ''space_gem'',
     ''space_gem'', ''mind_gem'', ''power_gem'', ''power_gem'', ''soul_gem'',
     ''soul_gem'', ''thanos_weapon'', ''scarlet_witch'', ''scarlet_witch'', ''thanos'',
     ''time_gem'', ''time_gem'', ''space_gem'', ''space_gem'', ''mind_gem'',
     ''mind_gem'', ''power_gem'', ''reality_gem'', ''soul_gem'', ''infinity_glove'',
     ''time_gem'', ''space_gem'', ''space_gem'', ''mind_gem'', ''mind_gem'',
     ''power_gem'', ''power_gem'', ''reality_gem'', ''reality_gem'', ''soul_gem'',
     ''thanos_weapon'', ''thanos_weapon'', ''scarlet_witch'', ''thanos'', ''thanos'',
     ''time_gem'', ''time_gem'', ''space_gem'', ''space_gem'', ''mind_gem'',
     ''power_gem'', ''power_gem'', ''reality_gem'', ''soul_gem'', ''infinity_glove'',
     ''time_gem'', ''time_gem'', ''space_gem'', ''mind_gem'', ''mind_gem'',
     ''power_gem'', ''reality_gem'', ''reality_gem'', ''soul_gem'', ''soul_gem'',
     ''thanos_weapon'', ''thanos_weapon'', ''scarlet_witch'', ''scarlet_witch'', ''thanos'',
     ''time_gem'', ''time_gem'', ''space_gem'', ''space_gem'', ''mind_gem'',
     ''power_gem'', ''power_gem'', ''reality_gem'', ''reality_gem'', ''soul_gem'',
     ''thanos_weapon'', ''scarlet_witch'', ''thanos'', ''time_gem'', ''infinity_glove'',
     ''time_gem'', ''space_gem'', ''space_gem'', ''mind_gem'', ''mind_gem'',
     ''power_gem'', ''power_gem'', ''reality_gem'', ''soul_gem'', ''soul_gem'',
     ''thanos_weapon'', ''thanos_weapon'', ''scarlet_witch'', ''scarlet_witch'', ''thanos'',
     ''time_gem'', ''time_gem'', ''space_gem'', ''space_gem'', ''infinity_glove'',
     ''mind_gem'', ''mind_gem'', ''power_gem'', ''reality_gem'', ''reality_gem'',
     ''soul_gem'', ''thanos_weapon'', ''thanos'', ''thanos'', ''time_gem'',
     ''space_gem'', ''space_gem'', ''mind_gem'', ''power_gem'', ''reality_gem'',
     ''soul_gem'', ''soul_gem'', ''thanos_weapon'', ''scarlet_witch'', ''power_gem'']"

definition base_strip_5 :: strip where
  "base_strip_5 =
    [''soul_gem'', ''soul_gem'', ''time_gem'', ''time_gem'', ''space_gem'',
     ''space_gem'', ''mind_gem'', ''mind_gem'', ''power_gem'', ''reality_gem'',
     ''reality_gem'', ''thanos_weapon'', ''thanos_weapon'', ''scarlet_witch'', ''thanos'',
     ''time_gem'', ''time_gem'', ''space_gem'', ''mind_gem'', ''mind_gem'',
     ''power_gem'', ''power_gem'', ''reality_gem'', ''soul_gem'', ''infinity_glove'',
     ''time_gem'', ''space_gem'', ''space_gem'', ''space_gem'', ''mind_gem'',
     ''power_gem'', ''reality_gem'', ''reality_gem'', ''soul_gem'', ''soul_gem'',
     ''thanos_weapon'', ''scarlet_witch'', ''scarlet_witch'', ''thanos'', ''thanos'',
     ''time_gem'', ''time_gem'', ''space_gem'', ''space_gem'', ''mind_gem'',
     ''power_gem'', ''power_gem'', ''reality_gem'', ''soul_gem'', ''infinity_glove'',
     ''time_gem'', ''time_gem'', ''space_gem'', ''mind_gem'', ''mind_gem'',
     ''power_gem'', ''power_gem'', ''reality_gem'', ''reality_gem'', ''soul_gem'',
     ''soul_gem'', ''thanos_weapon'', ''thanos_weapon'', ''scarlet_witch'', ''thanos'',
     ''time_gem'', ''space_gem'', ''space_gem'', ''space_gem'', ''mind_gem'',
     ''mind_gem'', ''power_gem'', ''reality_gem'', ''soul_gem'', ''infinity_glove'',
     ''time_gem'', ''time_gem'', ''space_gem'', ''mind_gem'', ''power_gem'',
     ''power_gem'', ''reality_gem'', ''reality_gem'', ''soul_gem'', ''soul_gem'',
     ''thanos_weapon'', ''thanos_weapon'', ''scarlet_witch'', ''scarlet_witch'', ''thanos'',
     ''time_gem'', ''time_gem'', ''space_gem'', ''space_gem'', ''mind_gem'',
     ''power_gem'', ''power_gem'', ''reality_gem'', ''soul_gem'', ''infinity_glove'',
     ''time_gem'', ''space_gem'', ''space_gem'', ''mind_gem'', ''mind_gem'',
     ''power_gem'', ''reality_gem'', ''reality_gem'', ''soul_gem'', ''thanos_weapon'',
     ''thanos_weapon'', ''scarlet_witch'', ''thanos'', ''thanos'', ''time_gem'',
     ''space_gem'', ''mind_gem'', ''power_gem'', ''reality_gem'', ''soul_gem'']"

definition BASE_GAME_STRIPS :: "strip list" where
  "BASE_GAME_STRIPS =
    [base_strip_0, base_strip_1, base_strip_2, base_strip_3, base_strip_4, base_strip_5]"

definition free_strip_0 :: strip where
  "free_strip_0 =
    [''time_gem'', ''time_gem'', ''space_gem'', ''space_gem'', ''thanos_weapon'',
     ''thanos_weapon'', ''scarlet_witch'', ''scarlet_witch'', ''thanos'', ''thanos'',
     ''time_gem'', ''time_gem'', ''space_gem'', ''mind_gem'', ''power_gem'',
     ''reality_gem'', ''soul_gem'', ''thanos_weapon'', ''thanos_weapon'', ''scarlet_witch'',
     ''thanos'', ''time_gem'', ''time_gem'', ''space_gem'', ''infinity_glove'',
     ''time_gem'', ''space_gem'', ''space_gem'', ''thanos_weapon'', ''thanos_weapon'',
     ''scarlet_witch'', ''scarlet_witch'', ''thanos'', ''time_gem'', ''time_gem'',
     ''space_gem'', ''space_gem'', ''mind_gem'', ''power_gem'', ''thanos_weapon'',
     ''thanos'', ''thanos'', ''scarlet_witch'', ''time_gem'', ''time_gem'',
     ''space_gem'', ''space_gem'', ''thanos_weapon'', ''thanos_weapon'', ''infinity_glove'',
     ''time_gem'', ''time_gem'', ''space_gem'', ''scarlet_witch'', ''scarlet_witch'',
     ''thanos'', ''thanos'', ''mind_gem'', ''power_gem'', ''thanos_weapon'',
     ''time_gem'', ''space_gem'', ''space_gem'', ''thanos_weapon'', ''thanos_weapon'',
     ''scarlet_witch'', ''thanos'', ''time_gem'', ''time_gem'', ''space_gem'',
     ''reality_gem'', ''soul_gem'', ''thanos_weapon'', ''scarlet_witch'', ''infinity_glove'',
     ''time_gem'', ''time_gem'', ''space_gem'', ''space_gem'', ''thanos_weapon'',
     ''thanos_weapon'', ''scarlet_witch'', ''scarlet_witch'', ''thanos'', ''thanos'',
     ''time_gem'', ''space_gem'', ''mind_gem'', ''power_gem'', ''thanos_weapon'',
     ''scarlet_witch'', ''time_gem'', ''time_gem'', ''space_gem'', ''space_gem'',
     ''thanos_weapon'', ''thanos'', ''thanos'', ''scarlet_witch'', ''infinity_glove'',
     ''time_gem'', ''time_gem'', ''space_gem'', ''space_gem'', ''thanos_weapon'',
     ''thanos_weapon'', ''scarlet_witch'', ''thanos'', ''reality_gem'', ''soul_gem'',
     ''time_gem'', ''space_gem'', ''thanos_weapon'', ''scarlet_witch'', ''infinity_glove'',
     ''time_gem'', ''space_gem'', ''thanos'', ''thanos'', ''scarlet_witch'']"

definition free_strip_1 :: strip where
  "free_strip_1 =
    [''space_gem'', ''space_gem'', ''time_gem'', ''time_gem'', ''thanos_weapon'',
     ''thanos_weapon'', ''scarlet_witch'', ''thanos'', ''thanos'', ''mind_gem'',
     ''power_gem'', ''time_gem'', ''time_gem'', ''space_gem'', ''space_gem'',
     ''thanos_weapon'', ''thanos_weapon'', ''scarlet_witch'', ''scarlet_witch'', ''thanos'',
     ''time_gem'', ''space_gem'', ''reality_gem'', ''soul_gem'', ''infinity_glove'',
     ''time_gem'', ''time_gem'', ''space_gem'', ''space_gem'', ''thanos_weapon'',
     ''thanos_weapon'', ''scarlet_witch'', ''thanos'', ''thanos'', ''time_gem'',
     ''space_gem'', ''mind_gem'', ''power_gem'', ''thanos_weapon'', ''scarlet_witch'',
     ''scarlet_witch'', ''time_gem'', ''time_gem'', ''space_gem'', ''space_gem'',
     ''thanos_weapon'', ''thanos'', ''thanos'', ''scarlet_witch'', ''infinity_glove'',
     ''time_gem'', ''time_gem'', ''space_gem'', ''thanos_weapon'', ''thanos_weapon'',
     ''scarlet_witch'', ''scarlet_witch'', ''thanos'', ''reality_gem'', ''soul_gem'',
     ''time_gem'', ''space_gem'', ''space_gem'', ''thanos_weapon'', ''thanos_weapon'',
     ''scarlet_witch'', ''thanos'', ''thanos'', ''time_gem'', ''time_gem'',
     ''space_gem'', ''mind_gem'', ''power_gem'', ''thanos_weapon'', ''infinity_glove'',
     ''time_gem'', ''time_gem'', ''space_gem'', ''space_gem'', ''thanos_weapon'',
     ''thanos_weapon'', ''scarlet_witch'', ''scarlet_witch'', ''thanos'', ''thanos'',
     ''time_gem'', ''space_gem'', ''thanos_weapon'', ''scarlet_witch'', ''reality_gem'',
     ''soul_gem'', ''time_gem'', ''time_gem'', ''space_gem'', ''space_gem'',
     ''thanos_weapon'', ''thanos'', ''scarlet_witch'', ''scarlet_witch'', ''infinity_glove'',
     ''time_gem'', ''time_gem'', ''space_gem'', ''space_gem'', ''thanos_weapon'',
     ''thanos_weapon'', ''scarlet_witch'', ''thanos'', ''thanos'', ''mind_gem'',
     ''power_gem'', ''time_gem'', ''space_gem'', ''thanos_weapon'', ''infinity_glove'',
     ''time_gem'', ''space_gem'', ''scarlet_witch'', ''thanos'', ''thanos_weapon'']"

definition free_strip_2 :: strip where
  "free_strip_2 =
    [''thanos_weapon'', ''thanos_weapon'', ''time_gem'', ''time_gem'', ''space_gem'',
     ''space_gem'', ''scarlet_witch'', ''scarlet_witch'', ''thanos'', ''thanos'',
     ''mind_gem'', ''power_gem'', ''time_gem'', ''time_gem'', ''space_gem'',
     ''thanos_weapon'', ''thanos_weapon'', ''scarlet_witch'', ''thanos'', ''reality_gem'',
     ''soul_gem'', ''time_gem'', ''space_gem'', ''space_gem'', ''infinity_glove'',
     ''time_gem'', ''time_gem'', ''space_gem'', ''thanos_weapon'', ''thanos_weapon'',
     ''scarlet_witch'', ''scarlet_witch'', ''thanos'', ''thanos'', ''time_gem'',
     ''space_gem'', ''mind_gem'', ''power_gem'', ''thanos_weapon'', ''scarlet_witch'',
     ''time_gem'', ''time_gem'', ''space_gem'', ''space_gem'', ''thanos_weapon'',
     ''thanos_weapon'', ''scarlet_witch'', ''thanos'', ''thanos'', ''infinity_glove'',
     ''time_gem'', ''time_gem'', ''space_gem'', ''space_gem'', ''thanos_weapon'',
     ''scarlet_witch'', ''scarlet_witch'', ''thanos'', ''reality_gem'', ''soul_gem'',
     ''time_gem'', ''space_gem'', ''thanos_weapon'', ''thanos_weapon'', ''scarlet_witch'',
     ''thanos'', ''thanos'', ''time_gem'', ''time_gem'', ''space_gem'',
     ''space_gem'', ''mind_gem'', ''power_gem'', ''thanos_weapon'', ''infinity_glove'',
     ''time_gem'', ''time_gem'', ''space_gem'', ''thanos_weapon'', ''thanos_weapon'',
     ''scarlet_witch'', ''scarlet_witch'', ''thanos'', ''thanos'', ''time_gem'',
     ''space_gem'', ''space_gem'', ''thanos_weapon'', ''scarlet_witch'', ''reality_gem'',
     ''soul_gem'', ''time_gem'', ''time_gem'', ''space_gem'', ''thanos_weapon'',
     ''thanos_weapon'', ''scarlet_witch'', ''thanos'', ''thanos'', ''infinity_glove'',
     ''time_gem'', ''time_gem'', ''space_gem'', ''space_gem'', ''thanos_weapon'',
     ''thanos_weapon'', ''scarlet_witch'', ''scarlet_witch'', ''thanos'', ''mind_gem'',
     ''power_gem'', ''time_gem'', ''space_gem'', ''thanos_weapon'', ''infinity_glove'',
     ''time_gem'', ''space_gem'', ''scarlet_witch'', ''thanos'', ''thanos_weapon'']"

definition free_strip_3 :: strip where
  "free_strip_3 =
    [''scarlet_witch'', ''scarlet_witch'', ''time_gem'', ''time_gem'', ''space_gem'',
     ''space_gem'', ''thanos_weapon'', ''thanos_weapon'', ''thanos'', ''thanos'',
     ''mind_gem'', ''power_gem'', ''time_gem'', ''space_gem'', ''thanos_weapon'',
     ''thanos_weapon'', ''scarlet_witch'', ''scarlet_witch'', ''thanos'', ''reality_gem'',
     ''soul_gem'', ''time_gem'', ''time_gem'', ''space_gem'', ''infinity_glove'',
     ''time_gem'', ''space_gem'', ''space_gem'', ''thanos_weapon'', ''thanos_weapon'',
     ''scarlet_witch'', ''thanos'', ''thanos'', ''time_gem'', ''time_gem'',
     ''space_gem'', ''mind_gem'', ''power_gem'', ''thanos_weapon'', ''scarlet_witch'',
     ''scarlet_witch'', ''time_gem'', ''time_gem'', ''space_gem'', ''space_gem'',
     ''thanos_weapon'', ''thanos_weapon'', ''thanos'', ''thanos'', ''infinity_glove'',
     ''time_gem'', ''time_gem'', ''space_gem'', ''thanos_weapon'', ''scarlet_witch'',
     ''scarlet_witch'', ''thanos'', ''thanos'', ''reality_gem'', ''soul_gem'',
     ''time_gem'', ''space_gem'', ''space_gem'', ''thanos_weapon'', ''thanos_weapon'',
     ''scarlet_witch'', ''scarlet_witch'', ''thanos'', ''time_gem'', ''time_gem'',
     ''space_gem'', ''mind_gem'', ''power_gem'', ''thanos_weapon'', ''infinity_glove'',
     ''time_gem'', ''time_gem'', ''space_gem'', ''space_gem'', ''thanos_weapon'',
     ''thanos_weapon'', ''scarlet_witch'', ''thanos'', ''thanos'', ''time_gem'',
     ''space_gem'', ''thanos_weapon'', ''scarlet_witch'', ''scarlet_witch'', ''reality_gem'',
     ''soul_gem'', ''time_gem'', ''time_gem'', ''space_gem'', ''thanos_weapon'',
     ''thanos_weapon'', ''scarlet_witch'', ''thanos'', ''thanos'', ''infinity_glove'',
     ''time_gem'', ''time_gem'', ''space_gem'', ''space_gem'', ''thanos_weapon'',
     ''scarlet_witch'', ''scarlet_witch'', ''thanos'', ''thanos'', ''mind_gem'',
     ''power_gem'', ''time_gem'', ''space_gem'', ''thanos_weapon'', ''infinity_glove'',
     ''time_gem'', ''space_gem'', ''scarlet_witch'', ''thanos'', ''thanos_weapon'']"

definition free_strip_4 :: strip where
  "free_strip_4 =
    [''thanos'', ''thanos'', ''time_gem'', ''time_gem'', ''space_gem'',
     ''space_gem'', ''thanos_weapon'', ''thanos_weapon'', ''scarlet_witch'', ''scarlet_witch'',
     ''mind_gem'', ''power_gem'', ''time_gem'', ''space_gem'', ''thanos_weapon'',
     ''scarlet_witch'', ''scarlet_witch'', ''thanos'', ''thanos'', ''reality_gem'',
     ''soul_gem'', ''time_gem'', ''time_gem'', ''space_gem'', ''infinity_glove'',
     ''time_gem'', ''space_gem'', ''space_gem'', ''thanos_weapon'', ''thanos_weapon'',
     ''scarlet_witch'', ''scarlet_witch'', ''thanos'', ''thanos'', ''time_gem'',
     ''time_gem'', ''space_gem'', ''mind_gem'', ''power_gem'', ''thanos_weapon'',
     ''thanos_weapon'', ''scarlet_witch'', ''thanos'', ''thanos'', ''time_gem'',
     ''space_gem'', ''space_gem'', ''thanos_weapon'', ''scarlet_witch'', ''infinity_glove'',
     ''time_gem'', ''time_gem'', ''space_gem'', ''thanos_weapon'', ''thanos_weapon'',
     ''scarlet_witch'', ''scarlet_witch'', ''thanos'', ''thanos'', ''reality_gem'',
     ''soul_gem'', ''time_gem'', ''space_gem'', ''space_gem'', ''thanos_weapon'',
     ''thanos_weapon'', ''scarlet_witch'', ''thanos'', ''thanos'', ''time_gem'',
     ''time_gem'', ''space_gem'', ''mind_gem'', ''power_gem'', ''infinity_glove'',
     ''time_gem'', ''time_gem'', ''space_gem'', ''space_gem'', ''thanos_weapon'',
     ''thanos_weapon'', ''scarlet_witch'', ''scarlet_witch'', ''thanos'', ''thanos'',
     ''time_gem'', ''space_gem'', ''thanos_weapon'', ''scarlet_witch'', ''reality_gem'',
     ''soul_gem'', ''time_gem'', ''time_gem'', ''space_gem'', ''space_gem'',
     ''thanos_weapon'', ''thanos_weapon'', ''scarlet_witch'', ''thanos'', ''infinity_glove'',
     ''time_gem'', ''time_gem'', ''space_gem'', ''thanos_weapon'', ''thanos_weapon'',
     ''scarlet_witch'', ''scarlet_witch'', ''thanos'', ''thanos'', ''mind_gem'',
     ''power_gem'', ''time_gem'', ''space_gem'', ''thanos_weapon'', ''infinity_glove'',
     ''time_gem'', ''space_gem'', ''scarlet_witch'', ''thanos'', ''thanos_weapon'']"

definition free_strip_5 :: strip where
  "free_strip_5 =
    [''thanos_weapon'', ''thanos_weapon'', ''time_gem'', ''time_gem'', ''space_gem'',
     ''space_gem'', ''scarlet_witch'', ''scarlet_witch'', ''thanos'', ''thanos'',
     ''mind_gem'', ''power_gem'', ''time_gem'', ''space_gem'', ''thanos_weapon'',
     ''thanos_weapon'', ''scarlet_witch'', ''thanos'', ''thanos'', ''reality_gem'',
     ''soul_gem'', ''time_gem'', ''time_gem'', ''space_gem'', ''infinity_glove'',
     ''time_gem'', ''space_gem'', ''space_gem'', ''thanos_weapon'', ''thanos_weapon'',
     ''scarlet_witch'', ''scarlet_witch'', ''thanos'', ''thanos'', ''time_gem'',
     ''time_gem'', ''space_gem'', ''mind_gem'', ''power_gem'', ''thanos_weapon'',
     ''scarlet_witch'', ''scarlet_witch'', ''thanos'', ''thanos'', ''time_gem'',
     ''space_gem'', ''space_gem'', ''thanos_weapon'', ''thanos_weapon'', ''infinity_glove'',
     ''time_gem'', ''time_gem'', ''space_gem'', ''thanos_weapon'', ''scarlet_witch'',
     ''scarlet_witch'', ''thanos'', ''thanos'', ''reality_gem'', ''soul_gem'',
     ''time_gem'', ''space_gem'', ''space_gem'', ''thanos_weapon'', ''thanos_weapon'',
     ''scarlet_witch'', ''scarlet_witch'', ''thanos'', ''thanos'', ''time_gem'',
     ''time_gem'', ''space_gem'', ''mind_gem'', ''power_gem'', ''infinity_glove'',
     ''time_gem'', ''time_gem'', ''space_gem'', ''space_gem'', ''thanos_weapon'',
     ''thanos_weapon'', ''scarlet_witch'', ''thanos'', ''thanos'', ''time_gem'',
     ''space_gem'', ''thanos_weapon'', ''thanos_weapon'', ''scarlet_witch'', ''scarlet_witch'',
     ''reality_gem'', ''soul_gem'', ''time_gem'', ''time_gem'', ''space_gem'',
     ''thanos_weapon'', ''scarlet_witch'', ''thanos'', ''thanos'', ''infinity_glove'',
     ''time_gem'', ''time_gem'', ''space_gem'', ''space_gem'', ''thanos_weapon'',
     ''thanos_weapon'', ''scarlet_witch'', ''scarlet_witch'', ''thanos'', ''mind_gem'',
     ''power_gem'', ''time_gem'', ''space_gem'', ''thanos_weapon'', ''infinity_glove'',
     ''time_gem'', ''space_gem'', ''scarlet_witch'', ''thanos'', ''thanos_weapon'']"

definition FREE_SPINS_STRIPS :: "strip list" where
  "FREE_SPINS_STRIPS =
    [free_strip_0, free_strip_1, free_strip_2, free_strip_3, free_strip_4, free_strip_5]"

definition getStrips :: "bool \<Rightarrow> strip list" where
  "getStrips fsMode = (if fsMode then FREE_SPINS_STRIPS else BASE_GAME_STRIPS)"

text \<open>
  Every \<open>throw new Error(...)\<close> of the two modules, and the \<open>TypeError\<close> that
  JavaScript raises on \<open>undefined.length\<close>, is a value of this type:
  \<^item> \<open>VersionMismatch\<close>: "Strip version mismatch: expected ..., got ...";
  \<^item> \<open>InvalidInput\<close>: "Invalid stop positions: expected ... positions";
  \<^item> \<open>OutOfRange\<close>: "Invalid column index: ...";
  \<^item> \<open>TypeError\<close>: reading \<open>length\<close> of a strip that does not exist.
\<close>

datatype error = VersionMismatch | InvalidInput | OutOfRange | TypeError

definition getStrip :: "int \<Rightarrow> bool \<Rightarrow> error + strip" where
  "getStrip column fsMode =
     (let strips = getStrips fsMode in
      if column < 0 \<or> column \<ge> int (length strips) then Inl OutOfRange
      else Inr (strips ! nat column))"

subsection \<open>validateStrips\<close>

text \<open>
  The messages pushed to \<open>errors\<close> and \<open>warnings\<close> are template strings; each is kept
  as a constructor holding the values the template interpolates (mode name, column,
  position, the offending count or symbol).
\<close>

datatype message =
    ExpectedStrips string nat
  | ExpectedSymbols string nat nat
  | InvalidSymbol string nat nat symbol
  | ScatterCount string nat nat

record validation =
  valid :: bool
  errors :: "message list"
  warnings :: "message list"

definition validSymbols :: "symbol list" where
  "validSymbols =
    [''time_gem'', ''space_gem'', ''mind_gem'', ''power_gem'', ''reality_gem'',
     ''soul_gem'', ''thanos_weapon'', ''scarlet_witch'', ''thanos'', ''infinity_glove'']"

definition scatterCount :: "strip \<Rightarrow> nat" where
  "scatterCount strip = length (filter (\<lambda>s. s = ''infinity_glove'') strip)"

text \<open>The loop over \<open>pos\<close>: \<open>rest\<close> is the part of the strip from \<open>pos\<close> on.\<close>

fun validate_positions ::
  "string \<Rightarrow> nat \<Rightarrow> nat \<Rightarrow> strip \<Rightarrow> validation \<Rightarrow> validation" where
  "validate_positions mode c pos [] results = results"
| "validate_positions mode c pos (s # rest) results =
     validate_positions mode c (Suc pos) rest
       (if s \<in> set validSymbols then results
        else results\<lparr>valid := False,
                     errors := errors results @ [InvalidSymbol mode c pos s]\<rparr>)"

definition validate_strip :: "string \<Rightarrow> nat \<Rightarrow> strip \<Rightarrow> validation \<Rightarrow> validation" where
  "validate_strip mode c strip results =
     (let r1 = (if length strip \<noteq> STRIP_LENGTH
                then results\<lparr>valid := False,
                              errors := errors results @ [ExpectedSymbols mode c (length strip)]\<rparr>
                else results);
          r2 = validate_positions mode c 0 strip r1
      in if scatterCount strip < 4 \<or> scatterCount strip > 7
         then r2\<lparr>warnings := warnings r2 @ [ScatterCount mode c (scatterCount strip)]\<rparr>
         else r2)"

text \<open>The loop over \<open>col\<close>: the list is the strips from column \<open>c\<close> on.\<close>

fun validate_columns ::
  "string \<Rightarrow> nat \<Rightarrow> strip list \<Rightarrow> validation \<Rightarrow> validation" where
  "validate_columns mode c [] results = results"
| "validate_columns mode c (strip # rest) results =
     validate_columns mode (Suc c) rest (validate_strip mode c strip results)"

definition validate_mode :: "string \<Rightarrow> strip list \<Rightarrow> validation \<Rightarrow> validation" where
  "validate_mode mode strips results =
     validate_columns mode 0 strips
       (if length strips \<noteq> 6
        then results\<lparr>valid := False,
                      errors := errors results @ [ExpectedStrips mode (length strips)]\<rparr>
        else results)"

text \<open>
  \<open>validateStrips\<close> reads the two module constants; \<open>validateStripsOn\<close> is its body
  with the two tables as arguments, so that its behaviour on other strip data can be
  stated.
\<close>

definition validateStripsOn :: "strip list \<Rightarrow> strip list \<Rightarrow> validation" where
  "validateStripsOn base free =
     validate_mode ''free_spins'' free
       (validate_mode ''base'' base \<lparr>valid = True, errors = [], warnings = []\<rparr>)"

definition validateStrips :: validation where
  "validateStrips = validateStripsOn BASE_GAME_STRIPS FREE_SPINS_STRIPS"

section \<open>Reel strip generator (reelStripGenerator.js)\<close>

subsection \<open>JavaScript arithmetic and indexing\<close>

text \<open>
  \<open>a % b\<close> truncates towards zero, so the result has the sign of \<open>a\<close>. For \<open>b = 0\<close>
  JavaScript gives \<open>NaN\<close>; the model then returns \<open>a\<close>, and the only use (an index into
  an empty strip) reads \<open>undefined\<close> either way.
\<close>

definition js_rem :: "int \<Rightarrow> int \<Rightarrow> int" where
  "js_rem a b = (if a < 0 then - ((- a) mod \<bar>b\<bar>) else a mod \<bar>b\<bar>)"

text \<open>
  \<open>strip[i]\<close>: an index outside the array reads \<open>undefined\<close>, which is \<open>None\<close>. A grid
  cell is therefore a symbol or \<open>undefined\<close>.
\<close>

type_synonym cell = "symbol option"

definition js_index :: "'a list \<Rightarrow> int \<Rightarrow> 'a option" where
  "js_index xs i = (if 0 \<le> i \<and> i < int (length xs) then Some (xs ! nat i) else None)"

text \<open>
  A JavaScript number that a seeded closure returns is a finite double: an integer
  mantissa of magnitude below \<open>2^53\<close> times a power of two. The pair \<open>(m, e)\<close> stands
  for \<open>m * 2^e\<close>.
\<close>

type_synonym double = "int \<times> int"

definition double_value :: "double \<Rightarrow> real" where
  "double_value x = of_int (fst x) * 2 powr of_int (snd x)"

text \<open>\<open>p / 2^k\<close> rounded to the nearest integer, a tie to the even one.\<close>

definition round_half_even :: "int \<Rightarrow> nat \<Rightarrow> int" where
  "round_half_even p k =
     (let q = p div 2 ^ k; r = p mod 2 ^ k in
      if 2 * r < 2 ^ k then q
      else if 2 * r > 2 ^ k then q + 1
      else if even q then q else q + 1)"

text \<open>
  \<open>x * n\<close> for an integer \<open>n\<close> (a strip length, itself a double): the exact product
  \<open>m * n * 2^e\<close> rounded to 53 significant bits, to nearest, ties to even, as IEEE 754
  multiplication does. The exponent limits of the format are not modelled: a product
  with an integer \<open>n \<ge> 1\<close> is never smaller in magnitude than \<open>x\<close>, so it does not
  underflow, and it overflows only beyond \<open>2^1024\<close>.
\<close>

definition js_times :: "double \<Rightarrow> int \<Rightarrow> double" where
  "js_times x n =
     (let p = fst x * n; k = nat (bitlen \<bar>p\<bar> - 53)
      in (round_half_even p k, snd x + int k))"

text \<open>\<open>Math.floor(x)\<close>, as an integer.\<close>

definition js_floor :: "double \<Rightarrow> int" where
  "js_floor x =
     (if 0 \<le> snd x then fst x * 2 ^ nat (snd x) else fst x div 2 ^ nat (- snd x))"

text \<open>A double in \<open>[0, 1)\<close>: what a uniform01-like stream returns.\<close>

definition unit_double :: "double \<Rightarrow> bool" where
  "unit_double x \<longleftrightarrow>
     0 \<le> fst x \<and> fst x < 2 ^ 53 \<and> - 1074 \<le> snd x \<and> fst x < 2 ^ nat (- snd x)"

text \<open>Truthiness of an optional string argument: \<open>null\<close> and \<open>''\<close> are falsy.\<close>

fun truthy :: "string option \<Rightarrow> bool" where
  "truthy None = False"
| "truthy (Some s) = (s \<noteq> [])"

text \<open>Decimal text of an integer, as a template string interpolates it.\<close>

fun show_nat :: "nat \<Rightarrow> string" where
  "show_nat n =
     (if n < 10 then [char_of (48 + n)]
      else show_nat (n div 10) @ [char_of (48 + n mod 10)])"

definition show_int :: "int \<Rightarrow> string" where
  "show_int i = (if i < 0 then CHR ''-'' # show_nat (nat (- i)) else show_nat (nat i))"

subsection \<open>The entropy provider\<close>

text \<open>
  Modelled from the spec: the Entropy Provider, module \<open>./rng\<close>, whose code is not
  part of the sources. The generator receives it as \<open>options.rng\<close>, and every function
  below takes it as the argument \<open>R\<close>. Section 4.1 of the specification gives it these
  capabilities:
  \<^item> \<open>createSeededRNG(seed)\<close> returns a closure that is "fully deterministic and
    reproducible for a given seed string" and a pure function of its seed (section 5);
    \<open>createSeededRNG R seed k\<close> is the double that closure returns on its call number
    \<open>k\<close>, counted from 0.
  \<^item> \<open>randomInt(min, max)\<close> reads the live source, whose state \<open>'e\<close> is threaded.
  \<^item> \<open>callCount()\<close>, the provider's own counter of the draws made on the live source
    since its creation, read from its state.
\<close>

record 'e rng =
  createSeededRNG :: "string \<Rightarrow> nat \<Rightarrow> double"
  randomInt :: "int \<Rightarrow> int \<Rightarrow> 'e \<Rightarrow> int \<times> 'e"
  callCount :: "'e \<Rightarrow> nat"

text \<open>
  Modelled from the spec: the contract of the Entropy Provider (section 4.1), whose code
  is not part of the sources: the seeded stream is uniform01-like, so each value is a
  double in \<open>[0, 1)\<close>; \<open>randomInt(min, max)\<close> is an integer within the inclusive bounds;
  and every call of \<open>randomInt\<close> raises \<open>callCount()\<close> by one.
\<close>

definition rng_contract :: "'e rng \<Rightarrow> bool" where
  "rng_contract R \<longleftrightarrow>
     (\<forall>seed k. unit_double (createSeededRNG R seed k)) \<and>
     (\<forall>lo hi e. lo \<le> hi \<longrightarrow> lo \<le> fst (randomInt R lo hi e) \<and> fst (randomInt R lo hi e) \<le> hi) \<and>
     (\<forall>lo hi e. callCount R (snd (randomInt R lo hi e)) = Suc (callCount R e))"

subsection \<open>Generator state\<close>

text \<open>
  \<open>this.statistics\<close>, without the \<open>initialized\<close> timestamp. \<open>lastStopPositions\<close> is
  \<open>null\<close> until the first grid.
\<close>

record statistics =
  gridsGenerated :: nat
  symbolsGenerated :: nat
  replacementSymbolsGenerated :: nat
  lastStopPositions :: "int list option"

text \<open>
  The audit events, each with the fields of its payload that identify the action
  (timestamps, elapsed times and the symbol counts of a generated grid are left out).
  \<open>logAuditEvent\<close> hands the event to \<open>rng.emit\<close>; the events emitted so far are kept
  in the state.
\<close>

datatype audit_event =
    REEL_STRIP_GENERATOR_INITIALIZED string nat nat nat
  | STOP_POSITIONS_GENERATED "int list" bool nat
  | GRID_GENERATED_FROM_STRIPS "int list" string bool
  | REPLACEMENT_SYMBOL_GENERATED int int cell bool string
  | REPLACEMENT_SYMBOLS_BATCH_GENERATED nat bool string
  | GRID_RECONSTRUCTED "int list" string bool
  | REEL_STRIP_GENERATOR_STATS_RESET

text \<open>
  The generator object together with what it can reach through \<open>this.rng\<close>: the state
  of the live entropy source and the emitted audit events.
\<close>

record 'e generator =
  rows :: nat
  cols :: nat
  auditLogging :: bool
  statistics :: statistics
  entropy :: 'e
  emitted :: "audit_event list"

definition logAuditEvent :: "audit_event \<Rightarrow> 'e generator \<Rightarrow> 'e generator" where
  "logAuditEvent event g =
     (if auditLogging g then g\<lparr>emitted := emitted g @ [event]\<rparr> else g)"

text \<open>
  The constructor: \<open>options.rows || 5\<close> and \<open>options.cols || 6\<close> replace a missing
  or zero value by the default; audit logging is on unless \<open>false\<close> is given.
\<close>

record options =
  opt_rows :: "nat option"
  opt_cols :: "nat option"
  opt_auditLogging :: "bool option"

definition or_default :: "nat option \<Rightarrow> nat \<Rightarrow> nat" where
  "or_default v d = (case v of None \<Rightarrow> d | Some n \<Rightarrow> if n = 0 then d else n)"

definition new_generator :: "options \<Rightarrow> 'e \<Rightarrow> 'e generator" where
  "new_generator opts e =
     (let g = \<lparr>rows = or_default (opt_rows opts) 5,
               cols = or_default (opt_cols opts) 6,
               auditLogging = (opt_auditLogging opts \<noteq> Some False),
               statistics = \<lparr>gridsGenerated = 0, symbolsGenerated = 0,
                             replacementSymbolsGenerated = 0, lastStopPositions = None\<rparr>,
               entropy = e, emitted = []\<rparr>
      in logAuditEvent
           (REEL_STRIP_GENERATOR_INITIALIZED STRIP_VERSION STRIP_LENGTH (cols g) (rows g)) g)"

definition no_options :: options where
  "no_options = \<lparr>opt_rows = None, opt_cols = None, opt_auditLogging = None\<rparr>"

definition resetStatistics :: "'e generator \<Rightarrow> 'e generator" where
  "resetStatistics g =
     logAuditEvent REEL_STRIP_GENERATOR_STATS_RESET
       (g\<lparr>statistics := \<lparr>gridsGenerated = 0, symbolsGenerated = 0,
                           replacementSymbolsGenerated = 0, lastStopPositions = None\<rparr>\<rparr>)"

subsection \<open>generateStopPositions\<close>

text \<open>
  The seeded loop: \<open>k\<close> calls have been made to the closure, \<open>n\<close> columns remain.
  Each iteration calls the closure once, for \<open>Math.floor(seededRNG() * STRIP_LENGTH)\<close>.
\<close>

fun seeded_positions :: "(nat \<Rightarrow> double) \<Rightarrow> nat \<Rightarrow> nat \<Rightarrow> int list" where
  "seeded_positions seededRNG k 0 = []"
| "seeded_positions seededRNG k (Suc n) =
     (let position = js_floor (js_times (seededRNG k) (int STRIP_LENGTH))
      in position # seeded_positions seededRNG (Suc k) n)"

text \<open>One call of \<open>this.rng.randomInt(lo, hi)\<close>.\<close>

definition live_draw :: "'e rng \<Rightarrow> int \<Rightarrow> int \<Rightarrow> 'e generator \<Rightarrow> int \<times> 'e generator" where
  "live_draw R lo hi g =
     (let (v, e') = randomInt R lo hi (entropy g)
      in (v, g\<lparr>entropy := e'\<rparr>))"

fun live_positions :: "'e rng \<Rightarrow> nat \<Rightarrow> 'e generator \<Rightarrow> int list \<times> 'e generator" where
  "live_positions R 0 g = ([], g)"
| "live_positions R (Suc n) g =
     (let (position, g1) = live_draw R 0 (int STRIP_LENGTH - 1) g;
          (rest, g') = live_positions R n g1
      in (position # rest, g'))"

definition generateStopPositions ::
  "'e rng \<Rightarrow> string option \<Rightarrow> 'e generator \<Rightarrow> int list \<times> 'e generator" where
  "generateStopPositions R seed g =
     (let (stopPositions, g') =
            (case seed of
               Some s \<Rightarrow>
                 if s \<noteq> [] then (seeded_positions (createSeededRNG R s) 0 (cols g), g)
                 else live_positions R (cols g) g
             | None \<Rightarrow> live_positions R (cols g) g)
      in (stopPositions,
          logAuditEvent (STOP_POSITIONS_GENERATED stopPositions (truthy seed) STRIP_LENGTH) g'))"

subsection \<open>generateInitialGrid\<close>

type_synonym grid = "cell list list"
type_synonym counts = "string \<rightharpoonup> nat"

text \<open>\<open>symbolCounts\<close> is keyed by the symbol's text; \<open>undefined\<close> becomes that word.\<close>

definition cell_key :: "cell \<Rightarrow> string" where
  "cell_key c = (case c of None \<Rightarrow> ''undefined'' | Some s \<Rightarrow> s)"

definition count_symbol :: "cell \<Rightarrow> counts \<Rightarrow> counts" where
  "count_symbol c m =
     m(cell_key c \<mapsto> (case m (cell_key c) of None \<Rightarrow> 1 | Some n \<Rightarrow> n + 1))"

text \<open>The loop over \<open>row\<close> of the generator: \<open>r\<close> is the row, \<open>n\<close> rows remain.\<close>

fun gen_rows :: "strip \<Rightarrow> int \<Rightarrow> nat \<Rightarrow> nat \<Rightarrow> counts \<Rightarrow> cell list \<times> counts" where
  "gen_rows strip stopPos r 0 cnt = ([], cnt)"
| "gen_rows strip stopPos r (Suc n) cnt =
     (let stripIndex = js_rem (stopPos + int r) (int (length strip));
          symbol = js_index strip stripIndex;
          (rest, cnt') = gen_rows strip stopPos (Suc r) n (count_symbol symbol cnt)
      in (symbol # rest, cnt'))"

text \<open>
  The loop over \<open>col\<close>: \<open>c\<close> is the column, \<open>n\<close> columns remain. \<open>strips[col]\<close> is
  \<open>undefined\<close> past the last strip, and the first \<open>strip.length\<close> of the inner loop
  then raises a TypeError; with no rows the inner loop never evaluates it.
\<close>

fun gen_cols ::
  "strip list \<Rightarrow> int list \<Rightarrow> nat \<Rightarrow> nat \<Rightarrow> nat \<Rightarrow> counts \<Rightarrow> error + grid \<times> counts" where
  "gen_cols strips sps nrows c 0 cnt = Inr ([], cnt)"
| "gen_cols strips sps nrows c (Suc n) cnt =
     (if c \<ge> length strips \<and> nrows > 0 then Inl TypeError
      else
        let (column, cnt') =
              (if c \<ge> length strips then ([], cnt)
               else gen_rows (strips ! c) (sps ! c) 0 nrows cnt)
        in case gen_cols strips sps nrows (Suc c) n cnt' of
             Inl e \<Rightarrow> Inl e
           | Inr (rest, cnt'') \<Rightarrow> Inr (column # rest, cnt''))"

text \<open>The result object; \<open>generationTimeMs\<close>, a clock reading, is left out.\<close>

record metadata =
  generationMethod :: string
  freeSpinsMode :: bool
  rngCalls :: nat
  seeded :: bool

record grid_result =
  grid :: grid
  stopPositions :: "int list"
  stripVersion :: string
  symbolCounts :: counts
  metadata :: metadata

definition generateInitialGrid ::
  "'e rng \<Rightarrow> 'e generator \<Rightarrow> bool \<Rightarrow> string option \<Rightarrow> (error + grid_result) \<times> 'e generator" where
  "generateInitialGrid R g fsMode seed =
     (let strips = getStrips fsMode;
          (sp, g1) = generateStopPositions R seed g
      in case gen_cols strips sp (rows g1) 0 (cols g1) Map.empty of
           Inl e \<Rightarrow> (Inl e, g1)
         | Inr (gr, sc) \<Rightarrow>
             let st = statistics g1;
                 g2 = g1\<lparr>statistics :=
                          st\<lparr>gridsGenerated := gridsGenerated st + 1,
                             symbolsGenerated := symbolsGenerated st + cols g1 * rows g1,
                             lastStopPositions := Some sp\<rparr>\<rparr>;
                 result = \<lparr>grid = gr, stopPositions = sp, stripVersion = STRIP_VERSION,
                           symbolCounts = sc,
                           metadata = \<lparr>generationMethod = ''reel_strips'',
                                        freeSpinsMode = fsMode,
                                        rngCalls = cols g1,
                                        seeded = truthy seed\<rparr>\<rparr>
             in (Inr result,
                 logAuditEvent (GRID_GENERATED_FROM_STRIPS sp STRIP_VERSION fsMode) g2))"

subsection \<open>Replacement symbols\<close>

record replacement_symbol =
  rs_symbol :: cell
  rs_stripPosition :: int
  rs_column :: int
  rs_stripVersion :: string
  rs_freeSpinsMode :: bool

text \<open>
  The draw shared by both replacement functions: the first value of a fresh seeded
  closure when the seed is truthy, else one live \<open>randomInt(0, strip.length - 1)\<close>.
\<close>

definition draw_position ::
  "'e rng \<Rightarrow> strip \<Rightarrow> string option \<Rightarrow> 'e generator \<Rightarrow> int \<times> 'e generator" where
  "draw_position R strip seed g =
     (case seed of
        Some s \<Rightarrow>
          if s \<noteq> []
          then (js_floor (js_times (createSeededRNG R s 0) (int (length strip))), g)
          else live_draw R 0 (int (length strip) - 1) g
      | None \<Rightarrow> live_draw R 0 (int (length strip) - 1) g)"

definition count_replacement :: "'e generator \<Rightarrow> 'e generator" where
  "count_replacement g =
     g\<lparr>statistics := (statistics g)\<lparr>replacementSymbolsGenerated :=
                                      replacementSymbolsGenerated (statistics g) + 1\<rparr>\<rparr>"

definition generateReplacementSymbol ::
  "'e rng \<Rightarrow> 'e generator \<Rightarrow> int \<Rightarrow> bool \<Rightarrow> string option \<Rightarrow>
     (error + replacement_symbol) \<times> 'e generator" where
  "generateReplacementSymbol R g column fsMode seed =
     (if column < 0 \<or> column \<ge> int (cols g) then (Inl OutOfRange, g)
      else case getStrip column fsMode of
             Inl e \<Rightarrow> (Inl e, g)
           | Inr strip \<Rightarrow>
               let (stripPosition, g1) = draw_position R strip seed g;
                   symbol = js_index strip stripPosition;
                   g2 = count_replacement g1
               in (Inr \<lparr>rs_symbol = symbol, rs_stripPosition = stripPosition,
                        rs_column = column, rs_stripVersion = STRIP_VERSION,
                        rs_freeSpinsMode = fsMode\<rparr>,
                   logAuditEvent
                     (REPLACEMENT_SYMBOL_GENERATED column stripPosition symbol fsMode STRIP_VERSION)
                     g2))"

text \<open>A requested cell \<open>{col, row}\<close> and a produced replacement.\<close>

record position =
  col :: int
  row :: int

record replacement =
  rp_col :: int
  rp_row :: int
  rp_symbol :: cell
  rp_stripPosition :: int
  rp_stripVersion :: string

text \<open>
  \<open>Object.entries(byColumn)\<close> lists the keys that are array indices (integers from 0
  up to \<open>2^32 - 2\<close>) in ascending order, then the other keys in the order of their first
  insertion. Columns are integers small enough to print in plain decimal.
\<close>

definition first_occurrences :: "'a list \<Rightarrow> 'a list" where
  "first_occurrences xs = rev (remdups (rev xs))"

definition is_array_index :: "int \<Rightarrow> bool" where
  "is_array_index c \<longleftrightarrow> 0 \<le> c \<and> c < 4294967295"

definition entries_keys :: "position list \<Rightarrow> int list" where
  "entries_keys positions =
     sort (remdups (filter is_array_index (map col positions))) @
     first_occurrences (filter (\<lambda>c. \<not> is_array_index c) (map col positions))"

definition positionSeed :: "string option \<Rightarrow> int \<Rightarrow> int \<Rightarrow> string option" where
  "positionSeed cascadeSeed c r =
     (case cascadeSeed of
        Some s \<Rightarrow> if s \<noteq> [] then Some (s @ ''_'' @ show_int c @ ''_'' @ show_int r) else None
      | None \<Rightarrow> None)"

text \<open>The inner loop over the cells \<open>colPositions\<close> of one column.\<close>

fun fill_column ::
  "'e rng \<Rightarrow> strip \<Rightarrow> int \<Rightarrow> string option \<Rightarrow> position list \<Rightarrow> 'e generator \<Rightarrow>
     replacement list \<times> 'e generator" where
  "fill_column R strip c cascadeSeed [] g = ([], g)"
| "fill_column R strip c cascadeSeed (pos # colPositions) g =
     (let (stripPosition, g1) = draw_position R strip (positionSeed cascadeSeed c (row pos)) g;
          symbol = js_index strip stripPosition;
          (rest, g') = fill_column R strip c cascadeSeed colPositions (count_replacement g1)
      in (\<lparr>rp_col = col pos, rp_row = row pos, rp_symbol = symbol,
           rp_stripPosition = stripPosition, rp_stripVersion = STRIP_VERSION\<rparr> # rest, g'))"

text \<open>
  The outer loop over the entries of \<open>byColumn\<close>; \<open>getStrip\<close> throws at the first key
  that is no column, and the state is then the one reached so far.
\<close>

fun fill_columns ::
  "'e rng \<Rightarrow> bool \<Rightarrow> string option \<Rightarrow> position list \<Rightarrow> int list \<Rightarrow> 'e generator \<Rightarrow>
     (error + replacement list) \<times> 'e generator" where
  "fill_columns R fsMode cascadeSeed positions [] g = (Inr [], g)"
| "fill_columns R fsMode cascadeSeed positions (c # keys) g =
     (case getStrip c fsMode of
        Inl e \<Rightarrow> (Inl e, g)
      | Inr strip \<Rightarrow>
          let (here, g1) =
                fill_column R strip c cascadeSeed (filter (\<lambda>p. col p = c) positions) g
          in (case fill_columns R fsMode cascadeSeed positions keys g1 of
                (Inl e, g') \<Rightarrow> (Inl e, g')
              | (Inr rest, g') \<Rightarrow> (Inr (here @ rest), g')))"

definition generateReplacementSymbols ::
  "'e rng \<Rightarrow> 'e generator \<Rightarrow> position list \<Rightarrow> bool \<Rightarrow> string option \<Rightarrow>
     (error + replacement list) \<times> 'e generator" where
  "generateReplacementSymbols R g positions fsMode cascadeSeed =
     (case fill_columns R fsMode cascadeSeed positions (entries_keys positions) g of
        (Inl e, g') \<Rightarrow> (Inl e, g')
      | (Inr replacements, g') \<Rightarrow>
          (Inr replacements,
           logAuditEvent
             (REPLACEMENT_SYMBOLS_BATCH_GENERATED (length replacements) fsMode STRIP_VERSION) g'))"

subsection \<open>reconstructGrid\<close>

text \<open>
  The first argument as JavaScript passes it: an array of integers, or a value for which
  \<open>Array.isArray\<close> is false. The version argument is \<open>None\<close> when the caller omits
  it, and the default parameter value \<open>STRIP_VERSION\<close> is then used.
\<close>

datatype stop_argument = NotAnArray | StopArray "int list"

fun rec_rows :: "strip \<Rightarrow> int \<Rightarrow> nat \<Rightarrow> nat \<Rightarrow> cell list" where
  "rec_rows strip stopPos r 0 = []"
| "rec_rows strip stopPos r (Suc n) =
     (let stripIndex = js_rem (stopPos + int r) (int (length strip))
      in js_index strip stripIndex # rec_rows strip stopPos (Suc r) n)"

fun rec_cols :: "strip list \<Rightarrow> int list \<Rightarrow> nat \<Rightarrow> nat \<Rightarrow> nat \<Rightarrow> error + grid" where
  "rec_cols strips sps nrows c 0 = Inr []"
| "rec_cols strips sps nrows c (Suc n) =
     (if c \<ge> length strips \<and> nrows > 0 then Inl TypeError
      else
        let column = (if c \<ge> length strips then []
                      else rec_rows (strips ! c) (sps ! c) 0 nrows)
        in case rec_cols strips sps nrows (Suc c) n of
             Inl e \<Rightarrow> Inl e
           | Inr rest \<Rightarrow> Inr (column # rest))"

definition reconstructGrid ::
  "'e generator \<Rightarrow> stop_argument \<Rightarrow> bool \<Rightarrow> string option \<Rightarrow> (error + grid) \<times> 'e generator" where
  "reconstructGrid g stopArg fsMode versionArg =
     (let version = (case versionArg of None \<Rightarrow> STRIP_VERSION | Some v \<Rightarrow> v) in
      if version \<noteq> STRIP_VERSION then (Inl VersionMismatch, g)
      else case stopArg of
             NotAnArray \<Rightarrow> (Inl InvalidInput, g)
           | StopArray sp \<Rightarrow>
               if length sp \<noteq> cols g then (Inl InvalidInput, g)
               else (case rec_cols (getStrips fsMode) sp (rows g) 0 (cols g) of
                       Inl e \<Rightarrow> (Inl e, g)
                     | Inr gr \<Rightarrow>
                         (Inr gr, logAuditEvent (GRID_RECONSTRUCTED sp version fsMode) g)))"

subsection \<open>A sample provider and generator\<close>

text \<open>
  A small deterministic provider on which concrete runs are replayed: its seeded stream
  returns multiples of \<open>1/128\<close> computed from the character codes of the seed, its
  live source is a counter, which is also its call count. It satisfies \<open>rng_contract\<close>.
\<close>

definition sample_rng :: "nat rng" where
  "sample_rng =
     \<lparr>createSeededRNG =
        (\<lambda>seed k. (int ((sum_list (map of_char seed) + 13 * k) mod 128), - 7)),
      randomInt = (\<lambda>lo hi e. (lo + int (e mod nat (hi - lo + 1)), Suc e)),
      callCount = (\<lambda>e. e)\<rparr>"

definition sample_generator :: "nat generator" where
  "sample_generator = new_generator no_options 0"

subsection \<open>Draws on the provider alone\<close>

text \<open>
  What "one draw per column from the live Entropy Provider" says, stated on the
  provider with no generator: \<open>n\<close> successive calls of
  \<open>randomInt(0, STRIP_LENGTH - 1)\<close> from the state \<open>e\<close>, the values they return in
  order and the state they leave. What "one draw per column from the seeded stream"
  says: the first \<open>n\<close> values of the one closure created from the seed, each scaled by
  \<open>Math.floor(x * STRIP_LENGTH)\<close>.
\<close>

fun live_calls :: "'e rng \<Rightarrow> nat \<Rightarrow> 'e \<Rightarrow> int list \<times> 'e" where
  "live_calls R 0 e = ([], e)"
| "live_calls R (Suc n) e =
     (let (v, e1) = randomInt R 0 (int STRIP_LENGTH - 1) e;
          (vs, e2) = live_calls R n e1
      in (v # vs, e2))"

definition seeded_calls :: "'e rng \<Rightarrow> string \<Rightarrow> nat \<Rightarrow> int list" where
  "seeded_calls R s n =
     map (\<lambda>k. js_floor (js_times (createSeededRNG R s k) (int STRIP_LENGTH))) [0..<n]"

subsection \<open>Predicates used to state the properties of strip data\<close>

text \<open>
  The structural conditions that \<open>validateStrips\<close> reports as errors, and the scatter
  band whose violation it reports as a warning.
\<close>

definition structurally_valid :: "strip \<Rightarrow> bool" where
  "structurally_valid strip \<longleftrightarrow>
     length strip = STRIP_LENGTH \<and> list_all (\<lambda>s. s \<in> set validSymbols) strip"

definition outside_band :: "strip \<Rightarrow> bool" where
  "outside_band strip \<longleftrightarrow> scatterCount strip < 4 \<or> scatterCount strip > 7"

subsection \<open>The replacement a seeded cascade produces for one cell\<close>

text \<open>
  The record that the body of the inner loop of \<open>generateReplacementSymbols\<close> pushes
  for the cell \<open>pos\<close> of column \<open>c\<close> when the cascade seed \<open>s\<close> is truthy: the
  position seed is \<open>s_c_row\<close>, and the strip position is the first value of the
  closure created from it, scaled to the strip.
\<close>

definition seeded_replacement :: "'e rng \<Rightarrow> strip \<Rightarrow> string \<Rightarrow> int \<Rightarrow> position \<Rightarrow> replacement" where
  "seeded_replacement R strip s c pos =
     (let stripPosition =
            js_floor (js_times
              (createSeededRNG R (s @ ''_'' @ show_int c @ ''_'' @ show_int (row pos)) 0)
              (int (length strip)))
      in \<lparr>rp_col = col pos, rp_row = row pos, rp_symbol = js_index strip stripPosition,
           rp_stripPosition = stripPosition, rp_stripVersion = STRIP_VERSION\<rparr>)"

section \<open>Properties of the loops\<close>

lemma rec_cols_error: "rec_cols strips sps nrows c n = Inl e \<Longrightarrow> e = TypeError"
  by (induction n arbitrary: c) (auto simp: Let_def split: if_splits sum.splits)

lemma gen_rows_fst: "fst (gen_rows strip sp r n cnt) = rec_rows strip sp r n"
  by (induction n arbitrary: r cnt) (simp_all add: Let_def split_def)

lemma gen_cols_rec:
  "map_sum id fst (gen_cols strips sps nrows c n cnt) = rec_cols strips sps nrows c n"
proof (induction n arbitrary: c cnt)
  case 0
  show ?case by simp
next
  case (Suc n)
  consider (throws) "c \<ge> length strips" "nrows > 0"
    | (empty) "c \<ge> length strips" "nrows = 0"
    | (column) "c < length strips"
    by fastforce
  then show ?case
  proof cases
    case throws
    then show ?thesis by simp
  next
    case empty
    then show ?thesis
      using Suc.IH[of "Suc c" cnt, symmetric]
      by (cases "gen_cols strips sps 0 (Suc c) n cnt") auto
  next
    case column
    let ?p = "gen_rows (strips ! c) (sps ! c) 0 nrows cnt"
    have gen_step: "gen_cols strips sps nrows c (Suc n) cnt =
        (case gen_cols strips sps nrows (Suc c) n (snd ?p) of
           Inl e \<Rightarrow> Inl e
         | Inr (rest, cnt'') \<Rightarrow> Inr (fst ?p # rest, cnt''))"
      using column by (simp add: split_def Let_def)
    have rec_step: "rec_cols strips sps nrows c (Suc n) =
        (case rec_cols strips sps nrows (Suc c) n of
           Inl e \<Rightarrow> Inl e
         | Inr rest \<Rightarrow> Inr (rec_rows (strips ! c) (sps ! c) 0 nrows # rest))"
      using column by (simp add: Let_def)
    show ?thesis
      unfolding gen_step rec_step Suc.IH[of "Suc c" "snd ?p", symmetric]
      by (cases "gen_cols strips sps nrows (Suc c) n (snd ?p)") (auto simp: gen_rows_fst)
  qed
qed

lemma rec_cols_total:
  "c + n \<le> length strips \<Longrightarrow> \<exists>gr. rec_cols strips sps nrows c n = Inr gr"
proof (induction n arbitrary: c)
  case 0
  show ?case by simp
next
  case (Suc n)
  from Suc.prems have "Suc c + n \<le> length strips" by simp
  from Suc.IH[OF this] obtain gr where "rec_cols strips sps nrows (Suc c) n = Inr gr" ..
  with Suc.prems show ?case by (simp add: Let_def)
qed

lemma length_getStrips: "length (getStrips m) = 6"
  by (simp add: getStrips_def BASE_GAME_STRIPS_def FREE_SPINS_STRIPS_def)

lemma seeded_positions_length: "length (seeded_positions f k n) = n"
  by (induction n arbitrary: k) (simp_all add: Let_def)

lemma live_draw_fields:
  "rows (snd (live_draw R lo hi g)) = rows g"
  "cols (snd (live_draw R lo hi g)) = cols g"
  "auditLogging (snd (live_draw R lo hi g)) = auditLogging g"
  "statistics (snd (live_draw R lo hi g)) = statistics g"
  "emitted (snd (live_draw R lo hi g)) = emitted g"
  by (simp_all add: live_draw_def split_def Let_def)

lemma live_positions_length: "length (fst (live_positions R n g)) = n"
  by (induction n arbitrary: g) (simp_all add: Let_def split_def)

lemma live_positions_fields:
  "rows (snd (live_positions R n g)) = rows g"
  "cols (snd (live_positions R n g)) = cols g"
  "auditLogging (snd (live_positions R n g)) = auditLogging g"
  "statistics (snd (live_positions R n g)) = statistics g"
  "emitted (snd (live_positions R n g)) = emitted g"
  by (induction n arbitrary: g; simp add: Let_def split_def live_draw_fields)+

lemma logAuditEvent_fields:
  "rows (logAuditEvent ev g) = rows g"
  "cols (logAuditEvent ev g) = cols g"
  "auditLogging (logAuditEvent ev g) = auditLogging g"
  "statistics (logAuditEvent ev g) = statistics g"
  "entropy (logAuditEvent ev g) = entropy g"
  by (simp_all add: logAuditEvent_def)

lemma generateStopPositions_length: "length (fst (generateStopPositions R seed g)) = cols g"
  by (simp add: generateStopPositions_def split_def Let_def seeded_positions_length
      live_positions_length split: option.splits)

lemma generateStopPositions_fields:
  "rows (snd (generateStopPositions R seed g)) = rows g"
  "cols (snd (generateStopPositions R seed g)) = cols g"
  "auditLogging (snd (generateStopPositions R seed g)) = auditLogging g"
  "statistics (snd (generateStopPositions R seed g)) = statistics g"
  by (simp_all add: generateStopPositions_def split_def Let_def logAuditEvent_fields
      live_positions_fields split: option.splits)

subsection \<open>validateStrips\<close>

lemma validate_positions_valid:
  "valid (validate_positions mode c pos strip r) \<longleftrightarrow> valid r \<and> list_all (\<lambda>s. s \<in> set validSymbols) strip"
  by (induction strip arbitrary: pos r) auto

lemma validate_positions_errors:
  "errors (validate_positions mode c pos strip r) = [] \<longleftrightarrow>
     errors r = [] \<and> list_all (\<lambda>s. s \<in> set validSymbols) strip"
  by (induction strip arbitrary: pos r) auto

lemma validate_positions_warnings:
  "warnings (validate_positions mode c pos strip r) = warnings r"
  by (induction strip arbitrary: pos r) auto

lemma validate_strip_valid:
  "valid (validate_strip mode c strip r) \<longleftrightarrow> valid r \<and> structurally_valid strip"
  by (auto simp: validate_strip_def Let_def validate_positions_valid structurally_valid_def)

lemma validate_strip_errors:
  "errors (validate_strip mode c strip r) = [] \<longleftrightarrow> 
     errors r = [] \<and> structurally_valid strip"
  by (auto simp: validate_strip_def Let_def validate_positions_errors structurally_valid_def)

lemma validate_strip_warnings:
  "warnings (validate_strip mode c strip r) =
     warnings r @ (if outside_band strip then [ScatterCount mode c (scatterCount strip)] else [])"
  by (auto simp: validate_strip_def Let_def validate_positions_warnings outside_band_def)

lemma validate_columns_valid:
  "valid (validate_columns mode c strips r) \<longleftrightarrow> valid r \<and> list_all structurally_valid strips"
  by (induction strips arbitrary: c r) (auto simp: validate_strip_valid)

lemma validate_columns_errors:
  "errors (validate_columns mode c strips r) = [] \<longleftrightarrow> errors r = [] \<and> list_all structurally_valid strips"
  by (induction strips arbitrary: c r) (auto simp: validate_strip_errors)

lemma validate_columns_warnings:
  "length (warnings (validate_columns mode c strips r)) =
     length (warnings r) + length (filter outside_band strips)"
  by (induction strips arbitrary: c r) (auto simp: validate_strip_warnings)

lemma validate_mode_valid:
  "valid (validate_mode mode strips r) \<longleftrightarrow>
     valid r \<and> length strips = 6 \<and> list_all structurally_valid strips"
  by (auto simp: validate_mode_def validate_columns_valid)

lemma validate_mode_errors:
  "errors (validate_mode mode strips r) = [] \<longleftrightarrow>
     errors r = [] \<and> length strips = 6 \<and> list_all structurally_valid strips"
  by (auto simp: validate_mode_def validate_columns_errors)

lemma validate_mode_warnings:
  "length (warnings (validate_mode mode strips r)) =
     length (warnings r) + length (filter outside_band strips)"
  by (simp add: validate_mode_def validate_columns_warnings)

lemma shipped_eval:
  "list_all (\<lambda>strip. structurally_valid strip \<and> \<not> outside_band strip) (BASE_GAME_STRIPS @ FREE_SPINS_STRIPS)"
  by code_simp

lemma shipped_validate: "validateStrips = \<lparr>valid = True, errors = [], warnings = []\<rparr>"
  by code_simp

subsection \<open>generateInitialGrid and the stop positions\<close>

lemma generateInitialGrid_total:
  assumes "cols g \<le> 6"
  shows "\<exists>res g'. generateInitialGrid R g fsMode seed = (Inr res, g')"
proof -
  let ?sp = "fst (generateStopPositions R seed g)"
  obtain gr where "rec_cols (getStrips fsMode) ?sp (rows g) 0 (cols g) = Inr gr"
    using rec_cols_total[of 0 "cols g" "getStrips fsMode"] assms
    by (auto simp: length_getStrips)
  with gen_cols_rec[of "getStrips fsMode" ?sp "rows g" 0 "cols g" Map.empty]
  obtain gc where "gen_cols (getStrips fsMode) ?sp (rows g) 0 (cols g) Map.empty = Inr gc"
    by (cases "gen_cols (getStrips fsMode) ?sp (rows g) 0 (cols g) Map.empty") auto
  then show ?thesis
    by (simp add: generateInitialGrid_def split_def Let_def generateStopPositions_fields)
qed

lemma generateInitialGrid_result:
  assumes "generateInitialGrid R g fsMode seed = (Inr res, g')"
  shows "stopPositions res = fst (generateStopPositions R seed g)"
    and "rec_cols (getStrips fsMode) (stopPositions res) (rows g) 0 (cols g) = Inr (grid res)"
    and "rngCalls (metadata res) = cols g"
    and "rows g' = rows g" and "cols g' = cols g"
proof -
  let ?sp = "fst (generateStopPositions R seed g)"
  from assms obtain gr sc where
    gc: "gen_cols (getStrips fsMode) ?sp (rows g) 0 (cols g) Map.empty = Inr (gr, sc)"
    and res: "grid res = gr" "stopPositions res = ?sp" "rngCalls (metadata res) = cols g"
    and g': "rows g' = rows g" "cols g' = cols g"
    by (auto simp: generateInitialGrid_def split_def Let_def generateStopPositions_fields
        logAuditEvent_fields split: sum.splits)
  from gc gen_cols_rec[of "getStrips fsMode" ?sp "rows g" 0 "cols g" Map.empty]
  have "rec_cols (getStrips fsMode) ?sp (rows g) 0 (cols g) = Inr gr"
    by simp
  with res g' show "stopPositions res = fst (generateStopPositions R seed g)"
    and "rec_cols (getStrips fsMode) (stopPositions res) (rows g) 0 (cols g) = Inr (grid res)"
    and "rngCalls (metadata res) = cols g"
    and "rows g' = rows g" and "cols g' = cols g"
    by simp_all
qed

subsection \<open>The floor of a scaled double\<close>

lemma double_unit_value:
  assumes "unit_double x"
  shows "0 \<le> double_value x \<and> double_value x < 1"
proof -
  obtain m e where x: "x = (m, e)" by (cases x)
  from assms x have m: "0 \<le> m" "m < 2 ^ nat (- e)" by (simp_all add: unit_double_def)
  show ?thesis
  proof (cases "0 \<le> e")
    case True
    with m have "m = 0" by simp
    then show ?thesis by (simp add: double_value_def x)
  next
    case False
    then have pw: "(2::real) powr of_int e = 1 / 2 ^ nat (- e)"
      by (simp add: powr_int)
    from m have "real_of_int m < real_of_int (2 ^ nat (- e))"
      by (simp only: of_int_less_iff)
    then have "real_of_int m < 2 ^ nat (- e)"
      by simp
    with m show ?thesis
      by (simp add: double_value_def x pw divide_simps)
  qed
qed

lemma int_div_less:
  fixes p c D :: int
  assumes "0 < D" and "p < c * D"
  shows "p div D < c"
proof (rule ccontr)
  assume "\<not> p div D < c"
  then have "c \<le> p div D" by simp
  with assms(1) have "c * D \<le> p div D * D"
    by (simp add: mult_right_mono)
  also have "\<dots> \<le> p"
    using assms(1) div_mult_mod_eq[of p D] pos_mod_sign[of D p] by linarith
  finally show False using assms(2) by simp
qed

lemma round_half_even_zero: "round_half_even p 0 = p"
  by (simp add: round_half_even_def)

lemma round_half_even_cases:
  "round_half_even p k = p div 2 ^ k \<or>
   (round_half_even p k = p div 2 ^ k + 1 \<and> 2 ^ k \<le> 2 * (p mod 2 ^ k))"
  by (auto simp: round_half_even_def Let_def)

text \<open>
  A double below 1 is at most \<open>1 - 2^-53\<close>, so its product with 120 stays more than
  half a unit in the last place below 120 and is never rounded up to 120.
\<close>

lemma unit_scaled_range:
  assumes "unit_double x"
  shows "0 \<le> js_floor (js_times x 120) \<and> js_floor (js_times x 120) < 120"
proof -
  obtain m e where x: "x = (m, e)" by (cases x)
  from assms x have m: "0 \<le> m" "m < 2 ^ 53" "m < 2 ^ nat (- e)"
    by (simp_all add: unit_double_def)
  define p where "p = m * 120"
  define k where "k = nat (bitlen \<bar>p\<bar> - 53)"
  have p0: "0 \<le> p" using m by (simp add: p_def)
  have jt: "js_times x 120 = (round_half_even p k, e + int k)"
    by (simp add: js_times_def x p_def k_def Let_def)
  show ?thesis
  proof (cases "k = 0")
    case True
    then have jt0: "js_times x 120 = (p, e)"
      by (simp add: jt round_half_even_zero)
    show ?thesis
    proof (cases "0 \<le> e")
      case True
      with m have "m = 0" by simp
      then show ?thesis by (simp add: jt0 js_floor_def p_def)
    next
      case False
      let ?D = "(2::int) ^ nat (- e)"
      have D: "0 < ?D" by simp
      from m have "p < 120 * ?D" by (simp add: p_def)
      with D have "p div ?D < 120"
        by (rule int_div_less)
      moreover have "0 \<le> p div ?D"
        using p0 D by (simp add: pos_imp_zdiv_nonneg_iff)
      ultimately show ?thesis
        using False by (simp add: jt0 js_floor_def)
    qed
  next
    case False
    then have bl: "bitlen p = 53 + int k"
      using p0 by (simp add: k_def)
    then have ppos: "0 < p"
      using bitlen_eq_zero_iff[of p] p0 by (cases "p = 0") auto
    from bitlen_bounds[OF ppos] bl have lo: "2 ^ (52 + k) \<le> p"
      by (simp add: nat_add_distrib)
    from m have "p < 2 ^ 60"
      by (simp add: p_def)
    then have "bitlen p \<le> 60"
      by (simp add: bitlen_le_iff_power)
    with bl have k7: "k \<le> 7" by simp
    have eneg: "e < 0"
    proof (rule ccontr)
      assume "\<not> e < 0"
      with m have "m = 0" by simp
      with ppos show False by (simp add: p_def)
    qed
    define E where "E = nat (- e)"
    from m have mD: "m + 1 \<le> 2 ^ E" by (simp add: E_def)
    with m(1) have "p < 128 * 2 ^ E" unfolding p_def by linarith
    also have "\<dots> = 2 ^ (7 + E)" by (simp add: power_add)
    finally have "p < 2 ^ (7 + E)" .
    with lo have "(2::int) ^ (52 + k) < 2 ^ (7 + E)" by (rule le_less_trans)
    then have kE: "52 + k < 7 + E"
      by simp
    define j where "j = E - k"
    from kE have Ekj: "E = k + j" by (simp add: j_def)
    define K where "K = (2::int) ^ k"
    define A where "A = (2::int) ^ j"
    have Kpos: "0 < K" and Apos: "0 < A" by (simp_all add: K_def A_def)
    have K128: "K \<le> 128"
      using k7 power_increasing[of k 7 "2::int"] by (simp add: K_def)
    have DKA: "2 ^ E = K * A" by (simp add: Ekj K_def A_def power_add)
    from mD have pb: "p + 120 \<le> 120 * (K * A)"
      by (simp add: p_def DKA[symmetric])
    define q where "q = p div K"
    define r where "r = p mod K"
    have pqr: "K * q + r = p" by (simp add: q_def r_def)
    have r0: "0 \<le> r" "r < K" using Kpos by (simp_all add: r_def)
    have q0: "0 \<le> q" using p0 Kpos by (simp add: q_def pos_imp_zdiv_nonneg_iff)
    define m' where "m' = round_half_even p k"
    have m'cases: "m' = q \<or> (m' = q + 1 \<and> K \<le> 2 * r)"
      using round_half_even_cases[of p k] by (simp add: m'_def q_def r_def K_def)
    have "K * m' < 120 * (K * A)"
    proof -
      from m'cases show ?thesis
      proof
        assume "m' = q"
        then have "K * m' = p - r" using pqr by simp
        with pb r0 show ?thesis by linarith
      next
        assume h: "m' = q + 1 \<and> K \<le> 2 * r"
        then have "K * m' = p - r + K" using pqr by (simp add: algebra_simps)
        with pb h K128 show ?thesis by linarith
      qed
    qed
    also have "120 * (K * A) = K * (120 * A)"
      by (rule mult.left_commute)
    finally have "K * m' < K * (120 * A)" .
    with Kpos have m'lt: "m' < 120 * A"
      by (simp only: mult_less_cancel_left_pos)
    have m'0: "0 \<le> m'" using m'cases q0 by auto
    have ej: "nat (- e - int k) = j" and ekneg: "\<not> 0 \<le> e + int k"
      using kE eneg by (simp_all add: j_def E_def)
    have fl: "js_floor (js_times x 120) = m' div A"
      by (simp add: jt js_floor_def ekneg ej m'_def A_def)
    from Apos m'lt have "m' div A < 120" by (rule int_div_less)
    moreover have "0 \<le> m' div A"
      using m'0 Apos by (simp add: pos_imp_zdiv_nonneg_iff)
    ultimately show ?thesis by (simp add: fl)
  qed
qed

lemma seeded_positions_range:
  assumes "\<And>k. unit_double (f k)"
  shows "p \<in> set (seeded_positions f k n) \<Longrightarrow> 0 \<le> p \<and> p < int STRIP_LENGTH"
proof (induction n arbitrary: k)
  case 0
  then show ?case by simp
next
  case (Suc n)
  from unit_scaled_range[OF assms[of k]] Suc show ?case
    by (auto simp: Let_def STRIP_LENGTH_def)
qed

lemma live_positions_range:
  assumes "\<And>lo hi e. lo \<le> hi \<Longrightarrow>
     lo \<le> fst (randomInt R lo hi e) \<and> fst (randomInt R lo hi e) \<le> hi"
  shows "p \<in> set (fst (live_positions R n g)) \<Longrightarrow> 0 \<le> p \<and> p < int STRIP_LENGTH"
proof (induction n arbitrary: g)
  case 0
  then show ?case by simp
next
  case (Suc n)
  have "0 \<le> fst (randomInt R 0 119 (entropy g)) \<and> fst (randomInt R 0 119 (entropy g)) \<le> 119"
    using assms[of 0 119 "entropy g"] by simp
  with Suc show ?case
    by (auto simp: Let_def split_def STRIP_LENGTH_def live_draw_def)
qed

lemma generateStopPositions_range:
  assumes "rng_contract R" and "p \<in> set (fst (generateStopPositions R seed g))"
  shows "0 \<le> p \<and> p < int STRIP_LENGTH"
proof -
  from assms(1) have s: "\<And>x k. unit_double (createSeededRNG R x k)"
    and l: "\<And>lo hi e. lo \<le> hi \<Longrightarrow>
      lo \<le> fst (randomInt R lo hi e) \<and> fst (randomInt R lo hi e) \<le> hi"
    by (simp_all add: rng_contract_def)
  show ?thesis
  proof (cases "truthy seed")
    case True
    then obtain x where x: "seed = Some x" "x \<noteq> []"
      by (cases seed) auto
    with assms(2) have "p \<in> set (seeded_positions (createSeededRNG R x) 0 (cols g))"
      by (simp add: generateStopPositions_def split_def Let_def)
    then show ?thesis
      using seeded_positions_range[of "createSeededRNG R x" p 0 "cols g"] s by blast
  next
    case False
    then have "seed = None \<or> seed = Some []"
      by (cases seed) auto
    with assms(2) have "p \<in> set (fst (live_positions R (cols g) g))"
      by (auto simp: generateStopPositions_def split_def Let_def)
    then show ?thesis
      using live_positions_range[of R p "cols g" g] l by blast
  qed
qed

lemma sample_rng_contract: "rng_contract sample_rng"
proof -
  have "lo \<le> hi \<Longrightarrow> lo + int (e mod nat (hi - lo + 1)) \<le> hi" for lo hi :: int and e :: nat
  proof -
    assume "lo \<le> hi"
    then have "0 < nat (hi - lo + 1)" by simp
    then have "e mod nat (hi - lo + 1) < nat (hi - lo + 1)" by (rule mod_less_divisor)
    then show ?thesis by linarith
  qed
  moreover have "unit_double (int (n mod 128), - 7)" for n :: nat
  proof -
    have "n mod 128 < 128" by simp
    then have "int (n mod 128) < 128" by linarith
    then show ?thesis by (simp add: unit_double_def)
  qed
  ultimately show ?thesis
    by (auto simp: rng_contract_def sample_rng_def)
qed

subsection \<open>The draws of generateStopPositions on the provider\<close>

lemma live_positions_calls:
  "fst (live_positions R n g) = fst (live_calls R n (entropy g))"
  "entropy (snd (live_positions R n g)) = snd (live_calls R n (entropy g))"
  by (induction n arbitrary: g; simp add: Let_def split_def live_draw_def)+

lemma live_calls_callCount:
  assumes "\<And>lo hi e. callCount R (snd (randomInt R lo hi e)) = Suc (callCount R e)"
  shows "callCount R (snd (live_calls R n e)) = callCount R e + n"
  by (induction n arbitrary: e) (simp_all add: Let_def split_def assms)

lemma seeded_positions_calls:
  "seeded_positions (createSeededRNG R s) k n =
     map (\<lambda>i. js_floor (js_times (createSeededRNG R s i) (int STRIP_LENGTH))) [k..<k + n]"
proof (induction n arbitrary: k)
  case 0
  show ?case by simp
next
  case (Suc n)
  have "[k..<k + Suc n] = k # [Suc k..<Suc k + n]"
    by (simp add: upt_conv_Cons)
  with Suc show ?case
    by (simp add: Let_def)
qed

lemma generateStopPositions_live:
  assumes "\<not> truthy seed"
  shows "fst (generateStopPositions R seed g) = fst (live_calls R (cols g) (entropy g))"
    and "entropy (snd (generateStopPositions R seed g)) = snd (live_calls R (cols g) (entropy g))"
proof -
  from assms have "seed = None \<or> seed = Some []"
    by (cases seed) auto
  then show "fst (generateStopPositions R seed g) = fst (live_calls R (cols g) (entropy g))"
    and "entropy (snd (generateStopPositions R seed g)) = snd (live_calls R (cols g) (entropy g))"
    by (auto simp: generateStopPositions_def split_def Let_def logAuditEvent_fields
        live_positions_calls)
qed

lemma generateStopPositions_seeded:
  assumes "s \<noteq> []"
  shows "fst (generateStopPositions R (Some s) g) = seeded_calls R s (cols g)"
    and "entropy (snd (generateStopPositions R (Some s) g)) = entropy g"
  using assms
  by (simp_all add: generateStopPositions_def split_def Let_def logAuditEvent_fields
      seeded_positions_calls seeded_calls_def)

lemma generateInitialGrid_entropy:
  "entropy (snd (generateInitialGrid R g fsMode seed)) =
     entropy (snd (generateStopPositions R seed g))"
  by (simp add: generateInitialGrid_def split_def Let_def logAuditEvent_fields
      split: sum.splits)

lemma generateInitialGrid_dims:
  "rows (snd (generateInitialGrid R g fsMode seed)) = rows g"
  "cols (snd (generateInitialGrid R g fsMode seed)) = cols g"
  by (simp_all add: generateInitialGrid_def split_def Let_def generateStopPositions_fields
      logAuditEvent_fields split: sum.splits)

subsection \<open>Cells of a reconstructed grid\<close>

lemma rec_rows_nth:
  "r < n \<Longrightarrow> rec_rows strip sp r0 n ! r =
     js_index strip (js_rem (sp + int (r0 + r)) (int (length strip)))"
proof (induction n arbitrary: r0 r)
  case 0
  then show ?case by simp
next
  case (Suc n)
  show ?case
  proof (cases r)
    case 0
    then show ?thesis by (simp add: Let_def)
  next
    case (Suc r')
    with Suc.prems have "r' < n" by simp
    from Suc.IH[OF this, of "Suc r0"] Suc show ?thesis by (simp add: Let_def)
  qed
qed

lemma rec_rows_length: "length (rec_rows strip sp r0 n) = n"
  by (induction n arbitrary: r0) (simp_all add: Let_def)

lemma rec_cols_within:
  "rec_cols strips sps nrows c0 n = Inr gr \<Longrightarrow> 0 < nrows \<Longrightarrow> n = 0 \<or> c0 + n \<le> length strips"
proof (induction n arbitrary: c0 gr)
  case 0
  then show ?case by simp
next
  case (Suc n)
  from Suc.prems have c: "c0 < length strips"
    by (auto split: if_splits)
  with Suc.prems obtain rest where "rec_cols strips sps nrows (Suc c0) n = Inr rest"
    by (auto simp: Let_def split: sum.splits)
  from Suc.IH[OF this Suc.prems(2)] c show ?case
    by auto
qed

lemma rec_cols_nth:
  "rec_cols strips sps nrows c0 n = Inr gr \<Longrightarrow> c < n \<Longrightarrow> c0 + c < length strips \<Longrightarrow>
     gr ! c = rec_rows (strips ! (c0 + c)) (sps ! (c0 + c)) 0 nrows"
proof (induction n arbitrary: c0 c gr)
  case 0
  then show ?case by simp
next
  case (Suc n)
  show ?case
  proof (cases c)
    case 0
    with Suc.prems show ?thesis
      by (auto simp: Let_def split: sum.splits if_splits)
  next
    case (Suc c')
    from Suc.prems obtain col rest where
      gr: "gr = col # rest" and rest: "rec_cols strips sps nrows (Suc c0) n = Inr rest"
      by (auto simp: Let_def split: sum.splits if_splits)
    from Suc Suc.prems have "c' < n" "Suc c0 + c' < length strips"
      by simp_all
    from Suc.IH[OF rest this] gr Suc show ?thesis
      by simp
  qed
qed

lemma shipped_strip_length:
  assumes "c < 6"
  shows "length (getStrips m ! c) = 120"
proof -
  have "getStrips m ! c \<in> set (BASE_GAME_STRIPS @ FREE_SPINS_STRIPS)"
    using assms length_getStrips[of True] length_getStrips[of False]
    by (auto simp: getStrips_def)
  with shipped_eval show ?thesis
    by (auto simp: list_all_iff structurally_valid_def STRIP_LENGTH_def)
qed

lemma first_rows_base: "rec_rows (getStrips False ! 0) 0 0 5 =
   [Some ''time_gem'', Some ''time_gem'', Some ''space_gem'', Some ''space_gem'', Some ''mind_gem'']"
  by code_simp


subsection \<open>Seeded draws\<close>

lemma generateInitialGrid_fst:
  "fst (generateInitialGrid R g fsMode seed) =
     (let sp = fst (generateStopPositions R seed g) in
      case gen_cols (getStrips fsMode) sp (rows g) 0 (cols g) Map.empty of
        Inl e \<Rightarrow> Inl e
      | Inr (gr, sc) \<Rightarrow>
          Inr \<lparr>grid = gr, stopPositions = sp, stripVersion = STRIP_VERSION,
               symbolCounts = sc,
               metadata = \<lparr>generationMethod = ''reel_strips'', freeSpinsMode = fsMode,
                            rngCalls = cols g, seeded = truthy seed\<rparr>\<rparr>)"
  by (simp add: generateInitialGrid_def split_def Let_def generateStopPositions_fields
      split: sum.splits)

lemma draw_position_seeded:
  "s \<noteq> [] \<Longrightarrow> fst (draw_position R strip (Some s) g) =
     js_floor (js_times (createSeededRNG R s 0) (int (length strip)))"
  by (simp add: draw_position_def)

lemma draw_position_position_seed:
  "fst (draw_position R strip (Some (s @ x # t)) g) =
     js_floor (js_times (createSeededRNG R (s @ x # t) 0) (int (length strip)))"
  by (simp add: draw_position_def)

lemma positionSeed_seeded:
  "s \<noteq> [] \<Longrightarrow> positionSeed (Some s) c r = Some (s @ ''_'' @ show_int c @ ''_'' @ show_int r)"
  by (simp add: positionSeed_def)

lemma fill_column_seeded:
  "s \<noteq> [] \<Longrightarrow> fst (fill_column R strip c (Some s) ps g) =
     map (seeded_replacement R strip s c) ps"
proof (induction ps arbitrary: g)
  case Nil
  show ?case by simp
next
  case (Cons pos ps)
  from Cons show ?case
    by (simp add: Let_def split_def positionSeed_seeded draw_position_position_seed
        seeded_replacement_def)
qed

lemma fill_columns_seeded:
  "s \<noteq> [] \<Longrightarrow> fst (fill_columns R fsMode (Some s) ps keys g1) =
     fst (fill_columns R fsMode (Some s) ps keys g2)"
proof (induction keys arbitrary: g1 g2)
  case Nil
  show ?case by simp
next
  case (Cons c keys)
  show ?case
  proof (cases "getStrip c fsMode")
    case (Inl e)
    then show ?thesis by simp
  next
    case (Inr strip)
    let ?h1 = "fill_column R strip c (Some s) (filter (\<lambda>p. col p = c) ps) g1"
    let ?h2 = "fill_column R strip c (Some s) (filter (\<lambda>p. col p = c) ps) g2"
    have here: "fst ?h1 = fst ?h2"
      by (simp add: fill_column_seeded[OF Cons.prems])
    have rest: "fst (fill_columns R fsMode (Some s) ps keys (snd ?h1)) =
                fst (fill_columns R fsMode (Some s) ps keys (snd ?h2))"
      by (rule Cons.IH[OF Cons.prems])
    obtain a1 b1 where r1: "fill_columns R fsMode (Some s) ps keys (snd ?h1) = (a1, b1)"
      by (cases "fill_columns R fsMode (Some s) ps keys (snd ?h1)")
    obtain a2 b2 where r2: "fill_columns R fsMode (Some s) ps keys (snd ?h2) = (a2, b2)"
      by (cases "fill_columns R fsMode (Some s) ps keys (snd ?h2)")
    from rest r1 r2 have "a1 = a2" by simp
    with Inr here r1 r2 show ?thesis
      by (cases a2) (simp_all add: split_def)
  qed
qed

lemma generateReplacementSymbols_fst:
  "fst (generateReplacementSymbols R g ps fsMode cs) =
     fst (fill_columns R fsMode cs ps (entries_keys ps) g)"
proof -
  obtain a b where r: "fill_columns R fsMode cs ps (entries_keys ps) g = (a, b)"
    by (cases "fill_columns R fsMode cs ps (entries_keys ps) g")
  then show ?thesis
    by (cases a) (simp_all add: generateReplacementSymbols_def)
qed

lemma entries_keys_single: "0 \<le> col p \<Longrightarrow> col p < 6 \<Longrightarrow> entries_keys [p] = [col p]"
  by (simp add: entries_keys_def is_array_index_def first_occurrences_def)

lemma getStrip_column:
  "0 \<le> c \<Longrightarrow> c < 6 \<Longrightarrow> getStrip c fsMode = Inr (getStrips fsMode ! nat c)"
  by (simp add: getStrip_def Let_def length_getStrips)

section \<open>The claims\<close>

text \<open>
  C1 (round-trip identity). For every mode and every seed argument (a seed, the empty
  seed or none), whenever \<open>generateInitialGrid\<close> returns a result, \<open>reconstructGrid\<close>
  called with the result's stop positions, the same mode and \<open>STRIP_VERSION\<close> returns
  exactly the result's grid; and a generator of at most six columns (the default is six)
  always returns a result.
\<close>

theorem roundtrip_identity:
  "(cols g \<le> 6 \<longrightarrow> (\<exists>res g'. generateInitialGrid R g fsMode seed = (Inr res, g'))) \<and>
   (\<forall>res g'. generateInitialGrid R g fsMode seed = (Inr res, g') \<longrightarrow>
      fst (reconstructGrid g' (StopArray (stopPositions res)) fsMode (Some STRIP_VERSION)) =
        Inr (grid res))"
proof (intro conjI impI allI)
  let ?sp = "fst (generateStopPositions R seed g)"
  have same: "map_sum id fst (gen_cols (getStrips fsMode) ?sp (rows g) 0 (cols g) Map.empty) =
        rec_cols (getStrips fsMode) ?sp (rows g) 0 (cols g)"
    by (rule gen_cols_rec)
  {
    assume "cols g \<le> 6"
    then obtain gr where "rec_cols (getStrips fsMode) ?sp (rows g) 0 (cols g) = Inr gr"
      using rec_cols_total[of 0 "cols g" "getStrips fsMode"] by (auto simp: length_getStrips)
    with same obtain gc where
      "gen_cols (getStrips fsMode) ?sp (rows g) 0 (cols g) Map.empty = Inr gc"
      by (cases "gen_cols (getStrips fsMode) ?sp (rows g) 0 (cols g) Map.empty") auto
    then show "\<exists>res g'. generateInitialGrid R g fsMode seed = (Inr res, g')"
      by (simp add: generateInitialGrid_def split_def Let_def generateStopPositions_fields)
  }
  fix res g'
  assume gen: "generateInitialGrid R g fsMode seed = (Inr res, g')"
  then obtain gr sc where
    gc: "gen_cols (getStrips fsMode) ?sp (rows g) 0 (cols g) Map.empty = Inr (gr, sc)"
    and res: "grid res = gr" "stopPositions res = ?sp"
    and g': "rows g' = rows g" "cols g' = cols g"
    by (auto simp: generateInitialGrid_def split_def Let_def generateStopPositions_fields
        logAuditEvent_fields split: sum.splits)
  from gc same have "rec_cols (getStrips fsMode) ?sp (rows g) 0 (cols g) = Inr gr"
    by simp
  then show "fst (reconstructGrid g' (StopArray (stopPositions res)) fsMode
               (Some STRIP_VERSION)) = Inr (grid res)"
    by (simp add: reconstructGrid_def res g' generateStopPositions_length)
qed

theorem roundtrip_identity_witness:
  "cols sample_generator \<le> 6 \<and>
   map_sum id stopPositions
     (fst (generateInitialGrid sample_rng sample_generator False (Some ''seed-X''))) =
     Inr [35, 47, 60, 72, 84, 96] \<and>
   map_sum id grid
     (fst (generateInitialGrid sample_rng sample_generator False (Some ''seed-X''))) =
     Inr [[Some ''thanos_weapon'', Some ''scarlet_witch'', Some ''thanos'',
           Some ''infinity_glove'', Some ''space_gem''],
          [Some ''soul_gem'', Some ''thanos_weapon'', Some ''infinity_glove'',
           Some ''time_gem'', Some ''time_gem''],
          [Some ''thanos_weapon'', Some ''thanos_weapon'', Some ''scarlet_witch'',
           Some ''thanos'', Some ''infinity_glove''],
          [Some ''reality_gem'', Some ''soul_gem'', Some ''infinity_glove'',
           Some ''time_gem'', Some ''time_gem''],
          [Some ''mind_gem'', Some ''power_gem'', Some ''power_gem'',
           Some ''reality_gem'', Some ''soul_gem''],
          [Some ''power_gem'', Some ''reality_gem'', Some ''soul_gem'',
           Some ''infinity_glove'', Some ''time_gem'']] \<and>
   fst (reconstructGrid
          (snd (generateInitialGrid sample_rng sample_generator False (Some ''seed-X'')))
          (StopArray [35, 47, 60, 72, 84, 96]) False (Some STRIP_VERSION)) =
     Inr [[Some ''thanos_weapon'', Some ''scarlet_witch'', Some ''thanos'',
           Some ''infinity_glove'', Some ''space_gem''],
          [Some ''soul_gem'', Some ''thanos_weapon'', Some ''infinity_glove'',
           Some ''time_gem'', Some ''time_gem''],
          [Some ''thanos_weapon'', Some ''thanos_weapon'', Some ''scarlet_witch'',
           Some ''thanos'', Some ''infinity_glove''],
          [Some ''reality_gem'', Some ''soul_gem'', Some ''infinity_glove'',
           Some ''time_gem'', Some ''time_gem''],
          [Some ''mind_gem'', Some ''power_gem'', Some ''power_gem'',
           Some ''reality_gem'', Some ''soul_gem''],
          [Some ''power_gem'', Some ''reality_gem'', Some ''soul_gem'',
           Some ''infinity_glove'', Some ''time_gem'']]"
proof -
  let ?G = "generateInitialGrid sample_rng sample_generator False (Some ''seed-X'')"
  note rt = roundtrip_identity[of sample_generator sample_rng False "Some ''seed-X''"]
  have c: "cols sample_generator \<le> 6"
    by code_simp
  with rt obtain res g' where gen: "?G = (Inr res, g')"
    by blast
  have sp: "map_sum id stopPositions (fst ?G) = Inr [35, 47, 60, 72, 84, 96]"
    by code_simp
  have gr: "map_sum id grid (fst ?G) =
     Inr [[Some ''thanos_weapon'', Some ''scarlet_witch'', Some ''thanos'',
           Some ''infinity_glove'', Some ''space_gem''],
          [Some ''soul_gem'', Some ''thanos_weapon'', Some ''infinity_glove'',
           Some ''time_gem'', Some ''time_gem''],
          [Some ''thanos_weapon'', Some ''thanos_weapon'', Some ''scarlet_witch'',
           Some ''thanos'', Some ''infinity_glove''],
          [Some ''reality_gem'', Some ''soul_gem'', Some ''infinity_glove'',
           Some ''time_gem'', Some ''time_gem''],
          [Some ''mind_gem'', Some ''power_gem'', Some ''power_gem'',
           Some ''reality_gem'', Some ''soul_gem''],
          [Some ''power_gem'', Some ''reality_gem'', Some ''soul_gem'',
           Some ''infinity_glove'', Some ''time_gem'']]"
    by code_simp
  from rt gen have again:
    "fst (reconstructGrid g' (StopArray (stopPositions res)) False (Some STRIP_VERSION)) =
       Inr (grid res)"
    by blast
  from sp gen have sp': "stopPositions res = [35, 47, 60, 72, 84, 96]"
    by simp
  from gr gen have gr': "Inr (grid res) = map_sum id grid (fst ?G)"
    by simp
  from again have "fst (reconstructGrid (snd ?G) (StopArray [35, 47, 60, 72, 84, 96]) False
      (Some STRIP_VERSION)) = map_sum id grid (fst ?G)"
    unfolding sp' gr' by (simp add: gen)
  with c sp gr show ?thesis
    by simp
qed

text \<open>
  C3 (version gating). Whatever the stop positions and the mode, a supplied strip
  version different from \<open>STRIP_VERSION\<close> makes \<open>reconstructGrid\<close> fail with
  \<open>VersionMismatch\<close>, with no grid and an unchanged generator; the live version is
  \<open>2.0.0\<close>, so version \<open>0.0.1\<close> is rejected.
\<close>

theorem version_gating:
  "(v \<noteq> STRIP_VERSION \<longrightarrow>
      reconstructGrid g stopArg fsMode (Some v) = (Inl VersionMismatch, g)) \<and>
   STRIP_VERSION = ''2.0.0'' \<and>
   reconstructGrid g stopArg fsMode (Some ''0.0.1'') = (Inl VersionMismatch, g)"
  by (simp add: reconstructGrid_def STRIP_VERSION_def)

theorem version_gating_witness:
  "''1.9.9'' \<noteq> STRIP_VERSION \<and>
   reconstructGrid sample_generator (StopArray [0, 0, 0, 0, 0, 0]) True (Some ''1.9.9'') =
     (Inl VersionMismatch, sample_generator)"
proof -
  have h: "''1.9.9'' \<noteq> STRIP_VERSION"
    by (simp add: STRIP_VERSION_def)
  with version_gating[of "''1.9.9''" sample_generator "StopArray [0, 0, 0, 0, 0, 0]" True]
  show ?thesis
    by blast
qed

text \<open>
  C9 (reconstruction leaves the statistics unchanged). After any call of
  \<open>reconstructGrid\<close>, successful or failed, the statistics record of the generator
  (\<open>gridsGenerated\<close>, \<open>symbolsGenerated\<close>, \<open>replacementSymbolsGenerated\<close>,
  \<open>lastStopPositions\<close>) is the one from before the call.
\<close>

theorem reconstructGrid_keeps_statistics:
  "statistics (snd (reconstructGrid g stopArg fsMode versionArg)) = statistics g"
  by (simp add: reconstructGrid_def Let_def logAuditEvent_fields
      split: option.splits stop_argument.splits sum.splits)

theorem reconstructGrid_keeps_statistics_witness:
  "statistics (snd (reconstructGrid sample_generator (StopArray [7, 0, 119, 3, 4, 5]) False None)) =
     \<lparr>gridsGenerated = 0, symbolsGenerated = 0, replacementSymbolsGenerated = 0,
      lastStopPositions = None\<rparr> \<and>
   emitted (snd (reconstructGrid sample_generator (StopArray [7, 0, 119, 3, 4, 5]) False None)) =
     [REEL_STRIP_GENERATOR_INITIALIZED ''2.0.0'' 120 6 5,
      GRID_RECONSTRUCTED [7, 0, 119, 3, 4, 5] ''2.0.0'' False]"
proof -
  have s: "statistics sample_generator =
     \<lparr>gridsGenerated = 0, symbolsGenerated = 0, replacementSymbolsGenerated = 0,
      lastStopPositions = None\<rparr>"
    by code_simp
  have e: "emitted (snd (reconstructGrid sample_generator (StopArray [7, 0, 119, 3, 4, 5])
      False None)) =
     [REEL_STRIP_GENERATOR_INITIALIZED ''2.0.0'' 120 6 5,
      GRID_RECONSTRUCTED [7, 0, 119, 3, 4, 5] ''2.0.0'' False]"
    by code_simp
  from s e show ?thesis
    using reconstructGrid_keeps_statistics
      [of sample_generator "StopArray [7, 0, 119, 3, 4, 5]" False None]
    by simp
qed

text \<open>
  C10 (an omitted version passes the version gate). When the caller omits the version
  argument the default \<open>STRIP_VERSION\<close> is compared with itself: the call behaves
  exactly as the call with \<open>STRIP_VERSION\<close> supplied and never fails with
  \<open>VersionMismatch\<close>.
\<close>

theorem omitted_version_passes_gate:
  "reconstructGrid g stopArg fsMode None =
     reconstructGrid g stopArg fsMode (Some STRIP_VERSION) \<and>
   fst (reconstructGrid g stopArg fsMode None) \<noteq> Inl VersionMismatch"
  by (auto simp add: reconstructGrid_def Let_def
      split: option.splits stop_argument.splits sum.splits dest: rec_cols_error)

theorem omitted_version_passes_gate_witness:
  "reconstructGrid sample_generator (StopArray [1, 2]) False None =
     (Inl InvalidInput, sample_generator) \<and>
   reconstructGrid sample_generator (StopArray [1, 2]) False (Some ''2.0.0'') =
     (Inl InvalidInput, sample_generator)"
proof -
  have a: "reconstructGrid sample_generator (StopArray [1, 2]) False (Some ''2.0.0'') =
     (Inl InvalidInput, sample_generator)"
    by code_simp
  from a show ?thesis
    using omitted_version_passes_gate[of sample_generator "StopArray [1, 2]" False]
    by (simp add: STRIP_VERSION_def)
qed




text \<open>
  C4 (entropy budget and range of the stop positions). Every call of
  \<open>generateInitialGrid\<close>, in either mode and whatever the number of rows, draws once per
  column. Without a (truthy) seed the live source is left in the state that exactly
  \<open>cols\<close> successive calls of \<open>randomInt(0, 119)\<close> leave, the stop positions are the
  values of these calls in order, and with a provider that keeps its contract the
  provider's own \<open>callCount\<close> has grown by \<open>cols\<close>. With a seed the stop positions are
  the first \<open>cols\<close> values of the one closure created from the seed, each as
  \<open>Math.floor(x * 120)\<close>, and the generator makes no call of \<open>randomInt\<close>. With the
  contract and at most six columns (the default is six) the call returns, and the stop
  positions are one integer per column, each in \<open>[0, 120)\<close>, the product being the
  rounded double product.
\<close>

theorem entropy_budget:
  "(\<not> truthy seed \<longrightarrow>
      entropy (snd (generateInitialGrid R g fsMode seed)) =
        snd (live_calls R (cols g) (entropy g)) \<and>
      (\<forall>res g'. generateInitialGrid R g fsMode seed = (Inr res, g') \<longrightarrow>
         stopPositions res = fst (live_calls R (cols g) (entropy g)))) \<and>
   (s \<noteq> [] \<longrightarrow>
      entropy (snd (generateInitialGrid R g fsMode (Some s))) = entropy g \<and>
      (\<forall>res g'. generateInitialGrid R g fsMode (Some s) = (Inr res, g') \<longrightarrow>
         stopPositions res = seeded_calls R s (cols g))) \<and>
   (rng_contract R \<and> \<not> truthy seed \<longrightarrow>
      callCount R (entropy (snd (generateInitialGrid R g fsMode seed))) =
        callCount R (entropy g) + cols g) \<and>
   (rng_contract R \<and> cols g \<le> 6 \<longrightarrow>
      (\<exists>res g'. generateInitialGrid R g fsMode seed = (Inr res, g') \<and>
         rngCalls (metadata res) = cols g \<and>
         length (stopPositions res) = cols g \<and>
         (\<forall>p \<in> set (stopPositions res). 0 \<le> p \<and> p < 120)))"
proof (intro conjI impI allI)
  assume "\<not> truthy seed"
  then show "entropy (snd (generateInitialGrid R g fsMode seed)) =
      snd (live_calls R (cols g) (entropy g))"
    by (simp add: generateInitialGrid_entropy generateStopPositions_live)
next
  fix res g'
  assume "\<not> truthy seed" and "generateInitialGrid R g fsMode seed = (Inr res, g')"
  then show "stopPositions res = fst (live_calls R (cols g) (entropy g))"
    by (simp add: generateInitialGrid_result(1) generateStopPositions_live)
next
  assume "s \<noteq> []"
  then show "entropy (snd (generateInitialGrid R g fsMode (Some s))) = entropy g"
    by (simp add: generateInitialGrid_entropy generateStopPositions_seeded)
next
  fix res g'
  assume "s \<noteq> []" and "generateInitialGrid R g fsMode (Some s) = (Inr res, g')"
  then show "stopPositions res = seeded_calls R s (cols g)"
    by (simp add: generateInitialGrid_result(1) generateStopPositions_seeded)
next
  assume c: "rng_contract R \<and> \<not> truthy seed"
  then have cc: "\<And>lo hi e. callCount R (snd (randomInt R lo hi e)) = Suc (callCount R e)"
    by (simp add: rng_contract_def)
  from c show "callCount R (entropy (snd (generateInitialGrid R g fsMode seed))) =
      callCount R (entropy g) + cols g"
    by (simp add: generateInitialGrid_entropy generateStopPositions_live
        live_calls_callCount[of R, OF cc])
next
  assume a: "rng_contract R \<and> cols g \<le> 6"
  then have "cols g \<le> 6"
    by simp
  from generateInitialGrid_total[OF this] obtain res g'
    where gen: "generateInitialGrid R g fsMode seed = (Inr res, g')"
    by blast
  note r = generateInitialGrid_result[OF gen]
  from a have "rng_contract R"
    by simp
  from generateStopPositions_range[OF this, of _ seed g] r(1)
  have "\<forall>p \<in> set (stopPositions res). 0 \<le> p \<and> p < 120"
    by (simp add: STRIP_LENGTH_def)
  with gen r show "\<exists>res g'. generateInitialGrid R g fsMode seed = (Inr res, g') \<and>
         rngCalls (metadata res) = cols g \<and>
         length (stopPositions res) = cols g \<and>
         (\<forall>p \<in> set (stopPositions res). 0 \<le> p \<and> p < 120)"
    by (simp add: generateStopPositions_length)
qed

theorem entropy_budget_witness:
  "rng_contract sample_rng \<and>
   rows (new_generator \<lparr>opt_rows = Some 2, opt_cols = None, opt_auditLogging = None\<rparr>
           (0::nat)) = 2 \<and>
   cols (new_generator \<lparr>opt_rows = Some 2, opt_cols = None, opt_auditLogging = None\<rparr>
           (0::nat)) = 6 \<and>
   callCount sample_rng (entropy (snd (generateInitialGrid sample_rng
     (new_generator \<lparr>opt_rows = Some 2, opt_cols = None, opt_auditLogging = None\<rparr> 0)
     True None))) = 6 \<and>
   live_calls sample_rng 6 0 = ([0, 1, 2, 3, 4, 5], 6) \<and>
   map_sum id stopPositions (fst (generateInitialGrid sample_rng
     (new_generator \<lparr>opt_rows = Some 2, opt_cols = None, opt_auditLogging = None\<rparr> 0)
     True None)) = Inr [0, 1, 2, 3, 4, 5] \<and>
   seeded_calls sample_rng ''seed-X'' 6 = [35, 47, 60, 72, 84, 96] \<and>
   map_sum id stopPositions (fst (generateInitialGrid sample_rng
     (new_generator \<lparr>opt_rows = Some 2, opt_cols = None, opt_auditLogging = None\<rparr> 0)
     True (Some ''seed-X''))) = Inr [35, 47, 60, 72, 84, 96] \<and>
   entropy (snd (generateInitialGrid sample_rng
     (new_generator \<lparr>opt_rows = Some 2, opt_cols = None, opt_auditLogging = None\<rparr> 0)
     True (Some ''seed-X''))) = 0"
proof -
  let ?g = "new_generator \<lparr>opt_rows = Some 2, opt_cols = None, opt_auditLogging = None\<rparr>
              (0::nat)"
  note eb = entropy_budget[of None sample_rng ?g True "''seed-X''"]
  note live = eb[THEN conjunct1]
    and seeded = eb[THEN conjunct2, THEN conjunct1]
    and counted = eb[THEN conjunct2, THEN conjunct2, THEN conjunct1]
    and ranged = eb[THEN conjunct2, THEN conjunct2, THEN conjunct2]
  have d: "rows ?g = 2" "cols ?g = 6" "entropy ?g = 0"
    by code_simp+
  have cc: "callCount sample_rng (0::nat) = 0"
    by (simp add: sample_rng_def)
  have lc: "live_calls sample_rng 6 0 = ([0, 1, 2, 3, 4, 5], 6)"
    by code_simp
  have sc: "seeded_calls sample_rng ''seed-X'' 6 = [35, 47, 60, 72, 84, 96]"
    by code_simp
  have n: "''seed-X'' \<noteq> []"
    by simp
  from counted sample_rng_contract
  have "callCount sample_rng (entropy (snd (generateInitialGrid sample_rng ?g True None))) =
      callCount sample_rng (entropy ?g) + cols ?g"
    by simp
  then have count: "callCount sample_rng
      (entropy (snd (generateInitialGrid sample_rng ?g True None))) = 6"
    by (simp add: d cc)
  from ranged sample_rng_contract d(2) obtain res g'
    where gen: "generateInitialGrid sample_rng ?g True None = (Inr res, g')"
    by auto
  from live gen have "stopPositions res = fst (live_calls sample_rng (cols ?g) (entropy ?g))"
    by simp
  then have "stopPositions res = [0, 1, 2, 3, 4, 5]"
    by (simp add: d lc)
  with gen have lp: "map_sum id stopPositions
      (fst (generateInitialGrid sample_rng ?g True None)) = Inr [0, 1, 2, 3, 4, 5]"
    by simp
  from generateInitialGrid_total[of ?g sample_rng True "Some ''seed-X''"] d(2) obtain res2 g2
    where gen2: "generateInitialGrid sample_rng ?g True (Some ''seed-X'') = (Inr res2, g2)"
    by auto
  from seeded n gen2 have "stopPositions res2 = seeded_calls sample_rng ''seed-X'' (cols ?g)"
    by blast
  then have "stopPositions res2 = [35, 47, 60, 72, 84, 96]"
    by (simp add: d sc)
  with gen2 have sp: "map_sum id stopPositions
      (fst (generateInitialGrid sample_rng ?g True (Some ''seed-X''))) =
      Inr [35, 47, 60, 72, 84, 96]"
    by simp
  from seeded n have "entropy (snd (generateInitialGrid sample_rng ?g True
      (Some ''seed-X''))) = entropy ?g"
    by blast
  then have se: "entropy (snd (generateInitialGrid sample_rng ?g True
      (Some ''seed-X''))) = 0"
    by (simp add: d)
  from sample_rng_contract d count lc lp sc sp se show ?thesis
    by blast
qed

text \<open>
  C5 (indexing rule of the grid). Whenever \<open>generateInitialGrid\<close> returns, for every
  column \<open>c\<close> and row \<open>r\<close> of the grid whose stop position lies in \<open>[0, 120)\<close>, the
  column is one of the six strips and the cell is
  \<open>strip_c[(stopPositions[c] + r) mod 120]\<close>; in base mode with five rows, stop position
  0 in column 0 gives the column \<open>time_gem, time_gem, space_gem, space_gem, mind_gem\<close>.
\<close>

theorem grid_indexing_rule:
  assumes "generateInitialGrid R g fsMode seed = (Inr res, g')"
    and "c < cols g" and "r < rows g"
    and "0 \<le> stopPositions res ! c" and "stopPositions res ! c < 120"
  shows "c < 6 \<and>
         grid res ! c ! r =
           Some (getStrips fsMode ! c ! nat ((stopPositions res ! c + int r) mod 120)) \<and>
         (\<not> fsMode \<and> c = 0 \<and> stopPositions res ! 0 = 0 \<and> rows g = 5 \<longrightarrow>
            grid res ! 0 =
              [Some ''time_gem'', Some ''time_gem'', Some ''space_gem'', Some ''space_gem'',
               Some ''mind_gem''])"
proof -
  note gi = generateInitialGrid_result[OF assms(1)]
  from assms(3) have pos: "0 < rows g" by simp
  from rec_cols_within[OF gi(2) pos] assms(2) have c6: "c < 6"
    by (simp add: length_getStrips)
  then have cl: "0 + c < length (getStrips fsMode)"
    by (simp add: length_getStrips)
  from rec_cols_nth[OF gi(2) assms(2) cl]
  have col: "grid res ! c = rec_rows (getStrips fsMode ! c) (stopPositions res ! c) 0 (rows g)"
    by simp
  have len: "length (getStrips fsMode ! c) = 120"
    by (rule shipped_strip_length[OF c6])
  let ?i = "(stopPositions res ! c + int r) mod 120"
  have i: "0 \<le> ?i" "?i < 120"
    by simp_all
  from assms(4) have "js_rem (stopPositions res ! c + int r) 120 = ?i"
    by (simp add: js_rem_def)
  with i have cell: "grid res ! c ! r = Some (getStrips fsMode ! c ! nat ?i)"
    by (simp add: col rec_rows_nth[OF assms(3)] len js_index_def)
  have "grid res ! 0 =
      [Some ''time_gem'', Some ''time_gem'', Some ''space_gem'', Some ''space_gem'',
       Some ''mind_gem'']"
    if "\<not> fsMode" "c = 0" "stopPositions res ! 0 = 0" "rows g = 5"
    using col that first_rows_base by simp
  with c6 cell show ?thesis
    by blast
qed

theorem grid_indexing_rule_witness:
  "map_sum id stopPositions
     (fst (generateInitialGrid sample_rng sample_generator False None)) =
     Inr [0, 1, 2, 3, 4, 5] \<and>
   map_sum id (\<lambda>res. grid res ! 0 ! 0)
     (fst (generateInitialGrid sample_rng sample_generator False None)) =
     Inr (Some ''time_gem'') \<and>
   map_sum id (\<lambda>res. grid res ! 0)
     (fst (generateInitialGrid sample_rng sample_generator False None)) =
     Inr [Some ''time_gem'', Some ''time_gem'', Some ''space_gem'', Some ''space_gem'',
          Some ''mind_gem'']"
proof -
  let ?G = "generateInitialGrid sample_rng sample_generator False None"
  have d: "cols sample_generator = 6 \<and> rows sample_generator = 5"
    by code_simp
  then have "cols sample_generator \<le> 6"
    by simp
  from generateInitialGrid_total[OF this] obtain res g' where gen: "?G = (Inr res, g')"
    by blast
  have sp: "map_sum id stopPositions (fst ?G) = Inr [0, 1, 2, 3, 4, 5]"
    by code_simp
  with gen have sp': "stopPositions res = [0, 1, 2, 3, 4, 5]"
    by simp
  have s0: "getStrips False ! 0 ! 0 = ''time_gem''"
    by code_simp
  from grid_indexing_rule[OF gen, of 0 0] d sp' s0
  have "grid res ! 0 ! 0 = Some ''time_gem'' \<and>
        grid res ! 0 =
          [Some ''time_gem'', Some ''time_gem'', Some ''space_gem'', Some ''space_gem'',
           Some ''mind_gem'']"
    by simp
  with gen sp show ?thesis
    by simp
qed

text \<open>
  C6, as stated, fails for the empty seed. The empty string is a seed string that is
  not \<open>null\<close>, but \<open>if (seed)\<close> treats it as no seed, and the stop positions come from
  the live source: two successive calls with the empty seed return different stop
  positions.
\<close>

theorem seeded_determinism_counterexample:
  "map_sum id stopPositions
     (fst (generateInitialGrid sample_rng sample_generator False (Some []))) =
     Inr [0, 1, 2, 3, 4, 5] \<and>
   map_sum id stopPositions
     (fst (generateInitialGrid sample_rng
        (snd (generateInitialGrid sample_rng sample_generator False (Some [])))
        False (Some []))) =
     Inr [6, 7, 8, 9, 10, 11]"
  by code_simp

text \<open>
  C6, amended. For every mode and every non-empty seed string, two calls of
  \<open>generateInitialGrid\<close> with that mode and seed, in whatever states of the generator
  (same grid dimensions) and of the live entropy source, return the same outcome: the
  same stop positions, grid, symbol counts and metadata.
\<close>

theorem seeded_determinism:
  assumes "s \<noteq> []" and "rows g1 = rows g2" and "cols g1 = cols g2"
  shows "fst (generateInitialGrid R g1 fsMode (Some s)) =
         fst (generateInitialGrid R g2 fsMode (Some s))"
  unfolding generateInitialGrid_fst generateStopPositions_seeded[OF assms(1)] assms(2,3)
  by (rule refl)

theorem seeded_determinism_witness:
  "''seed-X'' \<noteq> [] \<and>
   fst (generateInitialGrid sample_rng sample_generator True (Some ''seed-X'')) =
   fst (generateInitialGrid sample_rng
          (snd (generateInitialGrid sample_rng sample_generator True (Some ''seed-X'')))
          True (Some ''seed-X'')) \<and>
   map_sum id stopPositions
     (fst (generateInitialGrid sample_rng
          (snd (generateInitialGrid sample_rng sample_generator True (Some ''seed-X'')))
          True (Some ''seed-X''))) =
     Inr [35, 47, 60, 72, 84, 96]"
proof -
  let ?g2 = "snd (generateInitialGrid sample_rng sample_generator True (Some ''seed-X''))"
  have n: "''seed-X'' \<noteq> []"
    by simp
  have r: "rows sample_generator = rows ?g2"
    by (simp add: generateInitialGrid_dims)
  have c: "cols sample_generator = cols ?g2"
    by (simp add: generateInitialGrid_dims)
  have sp: "map_sum id stopPositions
      (fst (generateInitialGrid sample_rng ?g2 True (Some ''seed-X''))) =
      Inr [35, 47, 60, 72, 84, 96]"
    by code_simp
  from seeded_determinism[OF n r c, of sample_rng True] sp n show ?thesis
    by simp
qed

text \<open>
  C7 (structural validity of the shipped strips). Both tables hold six strips; each of
  the twelve strips has exactly 120 elements, all from the alphabet of ten symbols, and
  between 4 and 7 scatter symbols (\<open>infinity_glove\<close>); so \<open>validateStrips\<close> returns
  \<open>valid = true\<close> with no error and no warning. For any strip tables, \<open>valid\<close> is
  decided by the strip count, the strip lengths and the alphabet alone, the error list is
  empty exactly when \<open>valid\<close> holds, and each strip whose scatter count is outside the
  band adds one warning and nothing else.
\<close>

theorem shipped_strips_valid:
  "length BASE_GAME_STRIPS = 6 \<and> length FREE_SPINS_STRIPS = 6 \<and>
   length validSymbols = 10 \<and> distinct validSymbols \<and>
   (\<forall>strip \<in> set (BASE_GAME_STRIPS @ FREE_SPINS_STRIPS).
      length strip = 120 \<and> set strip \<subseteq> set validSymbols \<and>
      4 \<le> scatterCount strip \<and> scatterCount strip \<le> 7) \<and>
   validateStrips = \<lparr>valid = True, errors = [], warnings = []\<rparr> \<and>
   (valid (validateStripsOn base free) \<longleftrightarrow>
      length base = 6 \<and> length free = 6 \<and>
      (\<forall>strip \<in> set (base @ free).
         length strip = 120 \<and> set strip \<subseteq> set validSymbols)) \<and>
   (errors (validateStripsOn base free) = [] \<longleftrightarrow> valid (validateStripsOn base free)) \<and>
   length (warnings (validateStripsOn base free)) =
     length (filter (\<lambda>strip. scatterCount strip < 4 \<or> scatterCount strip > 7) (base @ free))"
proof -
  have a: "length BASE_GAME_STRIPS = 6 \<and> length FREE_SPINS_STRIPS = 6 \<and> length validSymbols = 10 \<and> distinct validSymbols"
    by code_simp
  have b: "\<forall>strip \<in> set (BASE_GAME_STRIPS @ FREE_SPINS_STRIPS).
      length strip = 120 \<and> set strip \<subseteq> set validSymbols \<and>
      4 \<le> scatterCount strip \<and> scatterCount strip \<le> 7"
  proof
    fix strip
    assume "strip \<in> set (BASE_GAME_STRIPS @ FREE_SPINS_STRIPS)"
    with shipped_eval have "structurally_valid strip \<and> \<not> outside_band strip"
      unfolding list_all_iff by blast
    then show "length strip = 120 \<and> set strip \<subseteq> set validSymbols \<and>
      4 \<le> scatterCount strip \<and> scatterCount strip \<le> 7"
      by (auto simp: structurally_valid_def outside_band_def STRIP_LENGTH_def list_all_iff)
  qed
  have c: "valid (validateStripsOn base free) \<longleftrightarrow>
      length base = 6 \<and> length free = 6 \<and>
      (\<forall>strip \<in> set (base @ free).
         length strip = 120 \<and> set strip \<subseteq> set validSymbols)"
    by (auto simp: validateStripsOn_def validate_mode_valid list_all_iff structurally_valid_def STRIP_LENGTH_def)
  have d: "errors (validateStripsOn base free) = [] \<longleftrightarrow> valid (validateStripsOn base free)"
    by (auto simp: validateStripsOn_def validate_mode_valid validate_mode_errors)
  have e: "length (warnings (validateStripsOn base free)) =
     length (filter (\<lambda>strip. scatterCount strip < 4 \<or> scatterCount strip > 7) (base @ free))"
    by (simp add: validateStripsOn_def validate_mode_warnings outside_band_def[abs_def])
  from a b c d e shipped_validate show ?thesis by blast
qed

theorem shipped_strips_valid_witness:
  "length base_strip_3 = 120 \<and> 4 \<le> scatterCount base_strip_3 \<and>
   scatterCount base_strip_3 \<le> 7 \<and>
   scatterCount (replicate 120 ''time_gem'') = 0 \<and>
   valid (validateStripsOn (replicate 6 (replicate 120 ''time_gem''))
            (replicate 6 (replicate 120 ''time_gem''))) \<and>
   length (warnings (validateStripsOn (replicate 6 (replicate 120 ''time_gem''))
            (replicate 6 (replicate 120 ''time_gem'')))) = 12"
proof -
  let ?B = "replicate 6 (replicate 120 ''time_gem'')"
  note v = shipped_strips_valid[of ?B ?B]
  have m: "base_strip_3 \<in> set (BASE_GAME_STRIPS @ FREE_SPINS_STRIPS)"
    by (simp add: BASE_GAME_STRIPS_def)
  have s: "length ?B = 6 \<and>
      (\<forall>strip \<in> set (?B @ ?B). length strip = 120 \<and> set strip \<subseteq> set validSymbols)"
    by (simp add: validSymbols_def)
  have z: "scatterCount (replicate 120 ''time_gem'') = 0"
    by code_simp
  have w: "length (filter (\<lambda>strip. scatterCount strip < 4 \<or> scatterCount strip > 7)
      (?B @ ?B)) = 12"
    by code_simp
  from v m have "length base_strip_3 = 120 \<and> 4 \<le> scatterCount base_strip_3 \<and>
      scatterCount base_strip_3 \<le> 7"
    by blast
  moreover from v s have "valid (validateStripsOn ?B ?B)"
    by blast
  moreover from v w have "length (warnings (validateStripsOn ?B ?B)) = 12"
    by simp
  ultimately show ?thesis
    using z by blast
qed

text \<open>
  C8, as stated, fails for the empty cascade seed. It is a seed that is not \<open>null\<close>,
  but the position seed is then \<open>null\<close> and the cell is drawn from the live source: two
  successive calls for the cell \<open>{col: 0, row: 3}\<close> with the empty cascade seed consume
  different strip positions and return different symbols.
\<close>

theorem replacement_determinism_counterexample:
  "fst (generateReplacementSymbols sample_rng (new_generator no_options 1)
          [\<lparr>col = 0, row = 3\<rparr>] False (Some [])) =
     Inr [\<lparr>rp_col = 0, rp_row = 3, rp_symbol = Some ''time_gem'',
            rp_stripPosition = 1, rp_stripVersion = ''2.0.0''\<rparr>] \<and>
   fst (generateReplacementSymbols sample_rng
          (snd (generateReplacementSymbols sample_rng (new_generator no_options 1)
                  [\<lparr>col = 0, row = 3\<rparr>] False (Some [])))
          [\<lparr>col = 0, row = 3\<rparr>] False (Some [])) =
     Inr [\<lparr>rp_col = 0, rp_row = 3, rp_symbol = Some ''space_gem'',
            rp_stripPosition = 2, rp_stripVersion = ''2.0.0''\<rparr>]"
  by code_simp

text \<open>
  C8, amended. For every non-empty cascade seed, every mode and every list of cells,
  \<open>generateReplacementSymbols\<close> returns the same outcome in whatever state the generator
  and the live source are; for a single cell of a valid column it is the replacement drawn
  with the position seed \<open>cascadeSeed_column_row\<close>, so symbol and strip position are the
  same on both calls. \<open>generateReplacementSymbol\<close> with a non-empty seed is deterministic
  in the same way. With no seed, two draws may differ: on the sample provider two
  successive calls for one cell return different replacements.
\<close>

theorem replacement_determinism:
  assumes "s \<noteq> []"
  shows "fst (generateReplacementSymbols R g1 positions fsMode (Some s)) =
           fst (generateReplacementSymbols R g2 positions fsMode (Some s)) \<and>
         (0 \<le> col p \<and> col p < 6 \<longrightarrow>
            fst (generateReplacementSymbols R g1 [p] fsMode (Some s)) =
              Inr [seeded_replacement R (getStrips fsMode ! nat (col p)) s (col p) p]) \<and>
         (cols g1 = cols g2 \<longrightarrow>
            fst (generateReplacementSymbol R g1 column fsMode (Some s)) =
              fst (generateReplacementSymbol R g2 column fsMode (Some s))) \<and>
         fst (generateReplacementSymbols sample_rng (new_generator no_options 1)
                [\<lparr>col = 0, row = 3\<rparr>] False None) \<noteq>
         fst (generateReplacementSymbols sample_rng
                (snd (generateReplacementSymbols sample_rng (new_generator no_options 1)
                        [\<lparr>col = 0, row = 3\<rparr>] False None))
                [\<lparr>col = 0, row = 3\<rparr>] False None)"
proof (intro conjI impI)
  show "fst (generateReplacementSymbols R g1 positions fsMode (Some s)) =
        fst (generateReplacementSymbols R g2 positions fsMode (Some s))"
    by (simp add: generateReplacementSymbols_fst fill_columns_seeded[OF assms, of R fsMode positions _ g1 g2])
next
  assume c: "0 \<le> col p \<and> col p < 6"
  then have k: "entries_keys [p] = [col p]"
    by (simp add: entries_keys_single)
  from c have g: "getStrip (col p) fsMode = Inr (getStrips fsMode ! nat (col p))"
    by (simp add: getStrip_column)
  have "fst (fill_columns R fsMode (Some s) [p] [col p] g1) =
        Inr (fst (fill_column R (getStrips fsMode ! nat (col p)) (col p) (Some s) [p] g1))"
    by (simp add: g split_def Let_def del: fill_column.simps)
  then show "fst (generateReplacementSymbols R g1 [p] fsMode (Some s)) =
        Inr [seeded_replacement R (getStrips fsMode ! nat (col p)) s (col p) p]"
    by (simp add: generateReplacementSymbols_fst k fill_column_seeded[OF assms]
        del: fill_column.simps)
next
  assume "cols g1 = cols g2"
  then show "fst (generateReplacementSymbol R g1 column fsMode (Some s)) =
             fst (generateReplacementSymbol R g2 column fsMode (Some s))"
    by (simp add: generateReplacementSymbol_def split_def Let_def draw_position_seeded[OF assms]
        split: sum.splits)
next
  have "fst (generateReplacementSymbols sample_rng (new_generator no_options 1)
                [\<lparr>col = 0, row = 3\<rparr>] False None) =
        Inr [\<lparr>rp_col = 0, rp_row = 3, rp_symbol = Some ''time_gem'',
               rp_stripPosition = 1, rp_stripVersion = ''2.0.0''\<rparr>]"
    by code_simp
  moreover have "fst (generateReplacementSymbols sample_rng
                (snd (generateReplacementSymbols sample_rng (new_generator no_options 1)
                        [\<lparr>col = 0, row = 3\<rparr>] False None))
                [\<lparr>col = 0, row = 3\<rparr>] False None) =
        Inr [\<lparr>rp_col = 0, rp_row = 3, rp_symbol = Some ''space_gem'',
               rp_stripPosition = 2, rp_stripVersion = ''2.0.0''\<rparr>]"
    by code_simp
  ultimately show "fst (generateReplacementSymbols sample_rng (new_generator no_options 1)
                [\<lparr>col = 0, row = 3\<rparr>] False None) \<noteq>
         fst (generateReplacementSymbols sample_rng
                (snd (generateReplacementSymbols sample_rng (new_generator no_options 1)
                        [\<lparr>col = 0, row = 3\<rparr>] False None))
                [\<lparr>col = 0, row = 3\<rparr>] False None)"
    by simp
qed

theorem replacement_determinism_witness:
  "''cascade-7'' \<noteq> [] \<and>
   fst (generateReplacementSymbols sample_rng sample_generator
          [\<lparr>col = 2, row = 1\<rparr>] False (Some ''cascade-7'')) =
     Inr [\<lparr>rp_col = 2, rp_row = 1, rp_symbol = Some ''mind_gem'',
            rp_stripPosition = 68, rp_stripVersion = ''2.0.0''\<rparr>] \<and>
   fst (generateReplacementSymbols sample_rng
          (snd (generateReplacementSymbols sample_rng sample_generator
                  [\<lparr>col = 2, row = 1\<rparr>] False (Some ''cascade-7'')))
          [\<lparr>col = 2, row = 1\<rparr>] False (Some ''cascade-7'')) =
     Inr [\<lparr>rp_col = 2, rp_row = 1, rp_symbol = Some ''mind_gem'',
            rp_stripPosition = 68, rp_stripVersion = ''2.0.0''\<rparr>]"
proof -
  let ?ps = "[\<lparr>col = 2, row = 1\<rparr>]"
  let ?g2 = "snd (generateReplacementSymbols sample_rng sample_generator ?ps False
                    (Some ''cascade-7''))"
  have n: "''cascade-7'' \<noteq> []"
    by simp
  have first: "fst (generateReplacementSymbols sample_rng sample_generator ?ps False
      (Some ''cascade-7'')) =
     Inr [\<lparr>rp_col = 2, rp_row = 1, rp_symbol = Some ''mind_gem'',
            rp_stripPosition = 68, rp_stripVersion = ''2.0.0''\<rparr>]"
    by code_simp
  from replacement_determinism[OF n, of sample_rng sample_generator ?ps False ?g2]
  have "fst (generateReplacementSymbols sample_rng sample_generator ?ps False
          (Some ''cascade-7'')) =
        fst (generateReplacementSymbols sample_rng ?g2 ?ps False (Some ''cascade-7''))"
    by blast
  with first n show ?thesis
    by simp
qed


end
